theory Spec2Isabelle
  imports Complex_Main "HOL-Library.Log_Nat" "HOL-Library.Char_ord" "HOL-Library.List_Lexorder"
begin

section \<open>Errors raised by the cart service\<close>

text \<open>
  The service raises in three ways: \<^verbatim>\<open>throw new Error(msg)\<close>, \<^verbatim>\<open>throw { code, error, message }\<close>
  (a plain object), and a rejected Prisma query (a unique-constraint violation, a record that
  is not there). Each is a value here.
\<close>

datatype error =
    Error string
  | Thrown int string string
  | PrismaError string

section \<open>JavaScript numbers and Prisma decimals\<close>

text \<open>
  A JavaScript \<^verbatim>\<open>number\<close> is an IEEE 754 binary64 value: NaN, an infinity, or a finite
  value, here the rational it denotes. The two zeros are identified: nothing in the service
  tells them apart. \<open>Infinity True\<close> is \<open>+\<infinity>\<close>.
\<close>

datatype js_number = NaN | Num rat | Infinity bool

definition pow2 :: "int \<Rightarrow> rat" where
  "pow2 e = (if 0 \<le> e then 2 ^ nat e else 1 / 2 ^ nat (- e))"

text \<open>\<open>ilog2 x\<close> is \<open>\<lfloor>log\<^sub>2 x\<rfloor>\<close> for a positive rational \<open>x\<close>.\<close>

definition ilog2 :: "rat \<Rightarrow> int" where
  "ilog2 x = (let (p, q) = quotient_of x; d = bitlen p - bitlen q
              in if pow2 d \<le> x then d else d - 1)"

definition round_half_even :: "rat \<Rightarrow> int" where
  "round_half_even x =
     (let f = \<lfloor>x\<rfloor>; d = x - of_int f
      in if d < 1 / 2 then f else if 1 / 2 < d then f + 1 else if even f then f else f + 1)"

text \<open>
  Rounding of an exact result to binary64, to nearest with ties to even: the significand
  has 53 bits, the exponent of its last bit is at least \<open>-1074\<close> (below that the values are
  subnormal), and a rounded magnitude of \<open>2\<^sup>1\<^sup>0\<^sup>2\<^sup>4\<close> or more overflows to an infinity.
\<close>

definition round64 :: "rat \<Rightarrow> js_number" where
  "round64 x =
     (if x = 0 then Num 0
      else let e = max (- 1074) (ilog2 \<bar>x\<bar> - 52);
               m = round_half_even (x / pow2 e);
               y = of_int m * pow2 e
           in if 1024 \<le> ilog2 \<bar>y\<bar> then Infinity (0 < x) else Num y)"

fun js_add :: "js_number \<Rightarrow> js_number \<Rightarrow> js_number" where
  "js_add NaN _ = NaN"
| "js_add _ NaN = NaN"
| "js_add (Infinity a) (Infinity b) = (if a = b then Infinity a else NaN)"
| "js_add (Infinity a) (Num _) = Infinity a"
| "js_add (Num _) (Infinity b) = Infinity b"
| "js_add (Num x) (Num y) = round64 (x + y)"

fun js_mul :: "js_number \<Rightarrow> js_number \<Rightarrow> js_number" where
  "js_mul NaN _ = NaN"
| "js_mul _ NaN = NaN"
| "js_mul (Infinity a) (Infinity b) = Infinity (a = b)"
| "js_mul (Infinity a) (Num y) = (if y = 0 then NaN else Infinity (a = (0 < y)))"
| "js_mul (Num x) (Infinity b) = (if x = 0 then NaN else Infinity (b = (0 < x)))"
| "js_mul (Num x) (Num y) = round64 (x * y)"

fun isNaN :: "js_number \<Rightarrow> bool" where
  "isNaN NaN = True"
| "isNaN _ = False"

text \<open>
  A \<^verbatim>\<open>Prisma.Decimal\<close> (decimal.js) is NaN, an infinity or an exact decimal value. The
  \<^verbatim>\<open>price\<close> column is nullable, so a price read from the store is a \<open>decimal option\<close>.
  \<^verbatim>\<open>Number(d)\<close> goes through the decimal's string form and yields the nearest binary64
  value.
\<close>

datatype decimal = DecNaN | Dec rat | DecInfinity bool

fun Number_decimal :: "decimal \<Rightarrow> js_number" where
  "Number_decimal DecNaN = NaN"
| "Number_decimal (Dec r) = round64 r"
| "Number_decimal (DecInfinity b) = Infinity b"

text \<open>\<^verbatim>\<open>Number(price)\<close> as \<^verbatim>\<open>getCart\<close> calls it: \<^verbatim>\<open>Number(null)\<close> is 0.\<close>

fun Number_price :: "decimal option \<Rightarrow> js_number" where
  "Number_price None = Num 0"
| "Number_price (Some d) = Number_decimal d"

text \<open>
  The value of an integer column (\<^verbatim>\<open>quantity\<close>) as a JavaScript number; the column holds
  32-bit integers, which binary64 represents exactly.
\<close>

definition Number_int :: "int \<Rightarrow> js_number" where
  "Number_int n = Num (of_int n)"

section \<open>The cart helpers\<close>

subsection \<open>generateInvoiceNumber\<close>

text \<open>
  \<^verbatim>\<open>new Date()\<close> is an input: the calendar date of the call in the local time zone.
  \<^verbatim>\<open>format(today, "yyyyMMdd")\<close> of date-fns writes the year with at least four digits and
  month and day with two.
\<close>

record date =
  year :: nat
  month :: nat
  day :: nat

definition digit_char :: "nat \<Rightarrow> char" where
  "digit_char n = ''0123456789'' ! (n mod 10)"

fun show_nat :: "nat \<Rightarrow> string" where
  "show_nat n = (if n < 10 then [digit_char n] else show_nat (n div 10) @ [digit_char n])"

declare show_nat.simps [simp del]

definition show_int :: "int \<Rightarrow> string" where
  "show_int i = (if i < 0 then CHR ''-'' # show_nat (nat (- i)) else show_nat (nat i))"

definition pad_zeros :: "nat \<Rightarrow> string \<Rightarrow> string" where
  "pad_zeros w s = replicate (w - length s) CHR ''0'' @ s"

definition format_yyyyMMdd :: "date \<Rightarrow> string" where
  "format_yyyyMMdd d =
     pad_zeros 4 (show_nat (year d)) @ pad_zeros 2 (show_nat (month d)) @ pad_zeros 2 (show_nat (day d))"

text \<open>
  \<^verbatim>\<open>nanoid(size)\<close> is the third-party generator: it takes as many bytes as the requested length of its random pool
  and maps each to \<^verbatim>\<open>urlAlphabet[byte & 63]\<close>. The pool is an input here.
\<close>

definition urlAlphabet :: string where
  "urlAlphabet = ''useandom-26T198340PX75pxJACKVERYMINDBUSHWOLF_GQZbfghjklqvwyzrict''"

definition nanoid :: "nat \<Rightarrow> nat list \<Rightarrow> string" where
  "nanoid len pool = map (\<lambda>byte. urlAlphabet ! (byte mod 64)) (take len pool)"

definition generateInvoiceNumber :: "date \<Rightarrow> nat list \<Rightarrow> string" where
  "generateInvoiceNumber today pool =
     (let formattedDate = format_yyyyMMdd today;
          uniqueId = nanoid 6 pool
      in ''INV-'' @ formattedDate @ ''-'' @ uniqueId)"

definition alphanumeric :: "char \<Rightarrow> bool" where
  "alphanumeric c \<longleftrightarrow>
     c \<in> set ''abcdefghijklmnopqrstuvwxyzABCDEFGHIJKLMNOPQRSTUVWXYZ0123456789''"

definition is_digit :: "char \<Rightarrow> bool" where
  "is_digit c \<longleftrightarrow> c \<in> set ''0123456789''"

subsection \<open>validateProductStock\<close>

text \<open>
  The helper reads \<^verbatim>\<open>productId\<close> and \<^verbatim>\<open>quantity\<close> of each cart item. The stock table is a
  JavaScript object from product id to \<^verbatim>\<open>stockQty\<close>; the column is nullable, so a lookup
  \<^verbatim>\<open>productStock[id]\<close> is \<^verbatim>\<open>undefined\<close> (no such key, \<open>None\<close>), \<^verbatim>\<open>null\<close>
  (\<open>Some None\<close>) or a number (\<open>Some (Some n)\<close>).
\<close>

record cart_line =
  productId :: string
  quantity :: int

type_synonym stock_table = "string \<rightharpoonup> int option"

text \<open>
  JavaScript's \<^verbatim>\<open>a < b\<close> with a number on the right converts the left operand to a number:
  \<^verbatim>\<open>undefined\<close> becomes NaN, and every comparison with NaN is false; \<^verbatim>\<open>null\<close> becomes 0.
\<close>

fun js_lt :: "int option option \<Rightarrow> int \<Rightarrow> bool" where
  "js_lt None q = False"
| "js_lt (Some None) q = (0 < q)"
| "js_lt (Some (Some s)) q = (s < q)"

fun join :: "string \<Rightarrow> string list \<Rightarrow> string" where
  "join sep [] = []"
| "join sep [x] = x"
| "join sep (x # y # ys) = x @ sep @ join sep (y # ys)"

definition validateProductStock :: "cart_line list \<Rightarrow> stock_table \<Rightarrow> error + unit" where
  "validateProductStock cartItems productStock =
     (let insufficientStockProducts =
            filter (\<lambda>item. js_lt (productStock (productId item)) (quantity item)) cartItems
      in if length insufficientStockProducts > 0
         then (let productNames = join '', '' (map productId insufficientStockProducts)
               in Inl (Error (''Insufficient stock for product(s): '' @ productNames)))
         else Inr ())"

subsection \<open>calculateTotalPrice\<close>

text \<open>
  The products argument is a list of \<^verbatim>\<open>{ id, price }\<close>. \<^verbatim>\<open>product?.price || 0\<close> is 0 when
  no product has the id or its price is \<^verbatim>\<open>null\<close>; a decimal object is truthy whatever its
  value.
\<close>

record priced =
  id_of :: string
  price_of :: "decimal option"

definition price_or_zero :: "priced option \<Rightarrow> js_number" where
  "price_or_zero product =
     (case product of
        None \<Rightarrow> Num 0
      | Some p \<Rightarrow> (case price_of p of None \<Rightarrow> Num 0 | Some d \<Rightarrow> Number_decimal d))"

definition calculateTotalPrice :: "cart_line list \<Rightarrow> priced list \<Rightarrow> js_number" where
  "calculateTotalPrice cartItems products =
     foldl (\<lambda>acc item.
              let product = find (\<lambda>p. id_of p = productId item) products
              in js_add acc (js_mul (Number_int (quantity item)) (price_or_zero product)))
           (Num 0) cartItems"


section \<open>The store\<close>

text \<open>
  The tables the cart service touches, each a list of rows, with the columns the service
  reads or writes (the other columns of a product, such as slug and description, play no
  part). The Prisma schema file is not among the sources: the columns follow the migrations
  and the fields the service names, \<^verbatim>\<open>price\<close> and \<^verbatim>\<open>stockQty\<close> being nullable. The store
  generates the ids of new rows; they are inputs (\<open>env\<close>), as are the clock and the random
  pool of the invoice generator.

  The types of the columns \<^verbatim>\<open>orders.totalPrice\<close>, \<^verbatim>\<open>order_items.price\<close> and
  \<^verbatim>\<open>transactions.amount\<close> are declared in the missing schema too (the migrations have them
  as \<^verbatim>\<open>INTEGER NOT NULL\<close>, the service writes decimals and numbers to them). What such a
  column holds after a value has been written to it is therefore a parameter in \<open>env\<close>: the
  stored value, as it is read back, or \<open>None\<close> when the store rejects the value. The three
  columns are not nullable.
\<close>

record cart_row =
  c_id :: string
  c_userId :: string

record cartItem_row =
  ci_id :: string
  ci_quantity :: int
  ci_productId :: string
  ci_cartId :: string

record product_row =
  p_id :: string
  p_name :: string
  p_price :: "decimal option"
  p_stockQty :: "int option"

record userAddress_row =
  a_id :: string
  a_userId :: string

record order_row =
  o_id :: string
  o_userId :: string
  o_totalPrice :: decimal
  o_status :: string
  o_shippingAddressId :: string

record orderItem_row =
  oi_id :: string
  oi_orderId :: string
  oi_productId :: string
  oi_quantity :: int
  oi_price :: decimal

record transaction_row =
  t_id :: string
  t_noInvoice :: string
  t_amount :: decimal
  t_status :: string
  t_orderId :: string

record db =
  carts :: "cart_row list"
  cartItems :: "cartItem_row list"
  products :: "product_row list"
  userAddresses :: "userAddress_row list"
  orders :: "order_row list"
  orderItems :: "orderItem_row list"
  transactions :: "transaction_row list"

record env =
  newCartId :: string
  newCartItemId :: string
  newOrderId :: string
  newOrderItemId :: "nat \<Rightarrow> string"
  newTransactionId :: string
  today :: date
  randomPool :: "nat list"
  totalPriceColumn :: "js_number \<Rightarrow> decimal option"
  priceColumn :: "decimal \<Rightarrow> decimal option"
  amountColumn :: "js_number \<Rightarrow> decimal option"

text \<open>
  A query runs on a store and returns a result or an error, and the store after it.
  \<^verbatim>\<open>db.$transaction(body)\<close> runs the body and commits its writes when it returns; when it
  throws, the writes are rolled back and the error is passed on.
\<close>

type_synonym 'a query = "db \<Rightarrow> (error + 'a) \<times> db"

definition db_transaction :: "'a query \<Rightarrow> 'a query" where
  "db_transaction body s =
     (case body s of
        (Inl e, _) \<Rightarrow> (Inl e, s)
      | (Inr r, s') \<Rightarrow> (Inr r, s'))"

subsection \<open>Queries\<close>

definition cart_findUnique :: "string \<Rightarrow> db \<Rightarrow> cart_row option" where
  "cart_findUnique userId s = find (\<lambda>c. c_userId c = userId) (carts s)"

definition cart_upsert :: "env \<Rightarrow> string \<Rightarrow> db \<Rightarrow> cart_row \<times> db" where
  "cart_upsert env userId s =
     (case cart_findUnique userId s of
        Some c \<Rightarrow> (c, s)
      | None \<Rightarrow>
          (let c = \<lparr>c_id = newCartId env, c_userId = userId\<rparr>
           in (c, s\<lparr>carts := carts s @ [c]\<rparr>)))"

definition product_findUnique :: "string \<Rightarrow> db \<Rightarrow> product_row option" where
  "product_findUnique pid s = find (\<lambda>p. p_id p = pid) (products s)"

definition product_findMany :: "string list \<Rightarrow> db \<Rightarrow> product_row list" where
  "product_findMany ids s = filter (\<lambda>p. p_id p \<in> set ids) (products s)"

definition cartItem_findMany :: "string \<Rightarrow> db \<Rightarrow> cartItem_row list" where
  "cartItem_findMany cartId s = filter (\<lambda>i. ci_cartId i = cartId) (cartItems s)"

text \<open>
  \<^verbatim>\<open>cartItem.findFirst({ where: { cart: { userId }, productId } })\<close>: the first item of the
  product whose cart belongs to the user.
\<close>

definition cartItem_findFirst :: "string \<Rightarrow> string \<Rightarrow> db \<Rightarrow> cartItem_row option" where
  "cartItem_findFirst userId pid s =
     find (\<lambda>i. ci_productId i = pid \<and>
               (\<exists>c \<in> set (carts s). c_id c = ci_cartId i \<and> c_userId c = userId))
          (cartItems s)"

text \<open>
  \<^verbatim>\<open>include: { product: true }\<close> joins each cart item with its product. The relation is
  required; a row whose product is gone makes the query fail.
\<close>

fun include_product :: "db \<Rightarrow> cartItem_row list \<Rightarrow> error + (cartItem_row \<times> product_row) list" where
  "include_product s [] = Inr []"
| "include_product s (i # rest) =
     (case product_findUnique (ci_productId i) s of
        None \<Rightarrow> Inl (PrismaError ''Inconsistent query result'')
      | Some p \<Rightarrow>
          (case include_product s rest of
             Inl e \<Rightarrow> Inl e
           | Inr joined \<Rightarrow> Inr ((i, p) # joined)))"

definition userAddress_count :: "string \<Rightarrow> db \<Rightarrow> nat" where
  "userAddress_count addressId s = length (filter (\<lambda>a. a_id a = addressId) (userAddresses s))"

text \<open>\<^verbatim>\<open>cartItem.delete\<close> by the key (product, cart): fails when no row has the key.\<close>

definition cartItem_delete :: "string \<Rightarrow> string \<Rightarrow> unit query" where
  "cartItem_delete cartId pid s =
     (if \<exists>i \<in> set (cartItems s). ci_cartId i = cartId \<and> ci_productId i = pid
      then (Inr (),
            s\<lparr>cartItems := filter (\<lambda>i. \<not> (ci_cartId i = cartId \<and> ci_productId i = pid)) (cartItems s)\<rparr>)
      else (Inl (PrismaError ''P2025''), s))"

definition cartItem_deleteMany :: "string \<Rightarrow> db \<Rightarrow> db" where
  "cartItem_deleteMany cartId s = s\<lparr>cartItems := filter (\<lambda>i. ci_cartId i \<noteq> cartId) (cartItems s)\<rparr>"

text \<open>
  \<^verbatim>\<open>cartItem.upsert\<close> by the key (product, cart): the update branch increments or sets the
  quantity, the create branch inserts a row with the requested quantity.
\<close>

datatype quantity_update = Increment int | Set int

fun apply_update :: "quantity_update \<Rightarrow> int \<Rightarrow> int" where
  "apply_update (Increment n) q = q + n"
| "apply_update (Set n) q = n"

definition cartItem_upsert ::
  "env \<Rightarrow> string \<Rightarrow> string \<Rightarrow> quantity_update \<Rightarrow> int \<Rightarrow> db \<Rightarrow> cartItem_row \<times> db" where
  "cartItem_upsert env cartId pid upd createQuantity s =
     (case find (\<lambda>i. ci_cartId i = cartId \<and> ci_productId i = pid) (cartItems s) of
        Some i \<Rightarrow>
          (let i' = i\<lparr>ci_quantity := apply_update upd (ci_quantity i)\<rparr>
           in (i', s\<lparr>cartItems := map (\<lambda>j. if ci_cartId j = cartId \<and> ci_productId j = pid
                                             then j\<lparr>ci_quantity := apply_update upd (ci_quantity j)\<rparr>
                                             else j) (cartItems s)\<rparr>))
      | None \<Rightarrow>
          (let i' = \<lparr>ci_id = newCartItemId env, ci_quantity = createQuantity,
                     ci_productId = pid, ci_cartId = cartId\<rparr>
           in (i', s\<lparr>cartItems := cartItems s @ [i']\<rparr>)))"

text \<open>
  \<^verbatim>\<open>product.update({ where: { id }, data: { stockQty: { decrement } } })\<close>: fails when the
  product is not there; a \<^verbatim>\<open>null\<close> stock stays \<^verbatim>\<open>null\<close>.
\<close>

definition product_update_decrement :: "string \<Rightarrow> int \<Rightarrow> unit query" where
  "product_update_decrement pid n s =
     (if \<exists>p \<in> set (products s). p_id p = pid
      then (Inr (),
            s\<lparr>products := map (\<lambda>p. if p_id p = pid
                                     then p\<lparr>p_stockQty := map_option (\<lambda>v. v - n) (p_stockQty p)\<rparr>
                                     else p) (products s)\<rparr>)
      else (Inl (PrismaError ''P2025''), s))"

text \<open>
  \<^verbatim>\<open>order.create\<close> with the nested creation of its items, one write. The total goes through
  the column \<^verbatim>\<open>totalPrice\<close> and each price through the column \<^verbatim>\<open>price\<close>; a price that is
  \<^verbatim>\<open>null\<close> or a value that a column rejects makes the write fail, and nothing is written.
  The order returned is the row as it is read back.
\<close>

definition stored_item :: "env \<Rightarrow> string \<times> int \<times> decimal option \<Rightarrow> (string \<times> int \<times> decimal) option" where
  "stored_item env item =
     (case item of
        (pid, qty, None) \<Rightarrow> None
      | (pid, qty, Some price) \<Rightarrow> map_option (\<lambda>stored. (pid, qty, stored)) (priceColumn env price))"

definition order_create ::
  "env \<Rightarrow> string \<Rightarrow> js_number \<Rightarrow> string \<Rightarrow> (string \<times> int \<times> decimal option) list
     \<Rightarrow> (order_row \<times> orderItem_row list) query" where
  "order_create env userId totalPrice shippingAddressId items s =
     (case totalPriceColumn env totalPrice of
        None \<Rightarrow> (Inl (PrismaError ''P2020''), s)
      | Some storedTotal \<Rightarrow>
          (case those (map (stored_item env) items) of
             None \<Rightarrow> (Inl (PrismaError ''P2020''), s)
           | Some storedItems \<Rightarrow>
               (let order = \<lparr>o_id = newOrderId env, o_userId = userId, o_totalPrice = storedTotal,
                              o_status = ''pending'', o_shippingAddressId = shippingAddressId\<rparr>;
                    rows = map (\<lambda>(k, (pid, qty, price)).
                                  \<lparr>oi_id = newOrderItemId env k, oi_orderId = newOrderId env,
                                   oi_productId = pid, oi_quantity = qty, oi_price = price\<rparr>)
                               (enumerate 0 storedItems)
                in (Inr (order, rows),
                    s\<lparr>orders := orders s @ [order], orderItems := orderItems s @ rows\<rparr>))))"

text \<open>
  \<^verbatim>\<open>transaction.create\<close>: the amount goes through the column \<^verbatim>\<open>amount\<close>, and the invoice
  number is unique in the table.
\<close>

definition transaction_create :: "env \<Rightarrow> string \<Rightarrow> js_number \<Rightarrow> string \<Rightarrow> transaction_row query" where
  "transaction_create env noInvoice amount orderId s =
     (case amountColumn env amount of
        None \<Rightarrow> (Inl (PrismaError ''P2020''), s)
      | Some storedAmount \<Rightarrow>
          (if \<exists>t \<in> set (transactions s). t_noInvoice t = noInvoice
           then (Inl (PrismaError ''P2002''), s)
           else (let t = \<lparr>t_id = newTransactionId env, t_noInvoice = noInvoice, t_amount = storedAmount,
                           t_status = ''Pending'', t_orderId = orderId\<rparr>
                 in (Inr t, s\<lparr>transactions := transactions s @ [t]\<rparr>))))"

section \<open>The cart service\<close>

subsection \<open>getCart\<close>

text \<open>The reduction that totals the cart; it throws at the first price that is NaN.\<close>

fun getCart_total :: "js_number \<Rightarrow> (cartItem_row \<times> product_row) list \<Rightarrow> error + js_number" where
  "getCart_total acc [] = Inr acc"
| "getCart_total acc ((item, product) # rest) =
     (let price = Number_price (p_price product)
      in if isNaN price then Inl (Error ''Invalid product price'')
         else getCart_total (js_add acc (js_mul (Number_int (ci_quantity item)) price)) rest)"

text \<open>
  The upsert of the cart returns its items with their products, ordered by product name
  (here the order of the character codes; the collation is the store's). The total is
  computed after the transaction has committed.
\<close>

definition getCart :: "env \<Rightarrow> string \<Rightarrow> ((cartItem_row \<times> product_row) list \<times> js_number) query" where
  "getCart env userId s =
     (case db_transaction
             (\<lambda>s. let (cart, s1) = cart_upsert env userId s
                   in case include_product s1 (cartItem_findMany (c_id cart) s1) of
                        Inl e \<Rightarrow> (Inl e, s1)
                      | Inr joined \<Rightarrow> (Inr (sort_key (\<lambda>(i, p). p_name p) joined), s1)) s of
        (Inl e, s') \<Rightarrow> (Inl e, s')
      | (Inr result, s') \<Rightarrow>
          (case getCart_total (Num 0) result of
             Inl e \<Rightarrow> (Inl e, s')
           | Inr total' \<Rightarrow> (Inr (result, total'), s')))"

subsection \<open>addOrUpdateCartItem\<close>

text \<open>
  \<^verbatim>\<open>newQuantity > availableStock\<close> where the stock may be \<^verbatim>\<open>null\<close>, which compares as 0;
  in the message a \<^verbatim>\<open>null\<close> stock prints as \<^verbatim>\<open>null\<close>.
\<close>

fun js_gt :: "int \<Rightarrow> int option \<Rightarrow> bool" where
  "js_gt n None = (0 < n)"
| "js_gt n (Some s) = (s < n)"

fun show_stock :: "int option \<Rightarrow> string" where
  "show_stock None = ''null''"
| "show_stock (Some n) = show_int n"

datatype upsert_result =
    Removed string
  | Upserted string cartItem_row

definition newQuantity_of :: "bool \<Rightarrow> cartItem_row option \<Rightarrow> int \<Rightarrow> int" where
  "newQuantity_of isIncrement cartItem qty =
     (if isIncrement
      then (case cartItem of None \<Rightarrow> 0 | Some i \<Rightarrow> ci_quantity i) + qty
      else qty)"

definition addOrUpdateCartItem_tx :: "env \<Rightarrow> string \<Rightarrow> string \<Rightarrow> int \<Rightarrow> bool \<Rightarrow> upsert_result query" where
  "addOrUpdateCartItem_tx env userId pid qty isIncrement s =
     (let (cart, s1) = cart_upsert env userId s;
          product = product_findUnique pid s1;
          cartItem = cartItem_findFirst userId pid s1
      in case product of
           None \<Rightarrow> (Inl (Thrown 404 ''PRODUCT_NOT_FOUND'' ''Product not found''), s1)
         | Some product \<Rightarrow>
            (let availableStock = p_stockQty product;
                 newQuantity = newQuantity_of isIncrement cartItem qty
             in if js_gt newQuantity availableStock
                then (Inl (Thrown 400 ''INVALID_QUANTITY''
                             (''Product '' @ p_name product @ '' has only '' @
                              show_stock availableStock @ '' available stock!'')), s1)
                else if \<not> isIncrement \<and> newQuantity = 0
                then (case cartItem of
                        None \<Rightarrow> (Inl (Thrown 404 ''CART_ITEM_NOT_FOUND'' ''Cart item not found!''), s1)
                      | Some _ \<Rightarrow>
                          (case cartItem_delete (c_id cart) pid s1 of
                             (Inl e, s2) \<Rightarrow> (Inl e, s2)
                           | (Inr _, s2) \<Rightarrow>
                               (Inr (Removed (''Successfully removed product '' @ p_name product @
                                              '' from cart!'')), s2)))
                else (let (updatedCartItem, s2) =
                            cartItem_upsert env (c_id cart) pid
                              (if isIncrement then Increment qty else Set newQuantity) qty s1
                      in (Inr (Upserted (if cartItem \<noteq> None
                                         then ''Successfully updated cart item!''
                                         else ''Successfully added product to cart!'')
                                        updatedCartItem), s2))))"

definition addOrUpdateCartItem :: "env \<Rightarrow> string \<Rightarrow> string \<Rightarrow> int \<Rightarrow> bool \<Rightarrow> upsert_result query" where
  "addOrUpdateCartItem env userId pid qty isIncrement =
     db_transaction (addOrUpdateCartItem_tx env userId pid qty isIncrement)"

subsection \<open>checkout\<close>

text \<open>
  The queries that the service starts together (\<^verbatim>\<open>Promise.all\<close>) run one after another on
  the connection of the transaction, in the order in which they are written.
\<close>

text \<open>
  \<^verbatim>\<open>decrementStock\<close> is an object filled by a reduction; \<^verbatim>\<open>Object.entries\<close> lists its keys
  in the order of their first insertion. \<^verbatim>\<open>(acc[id] || 0)\<close> is 0 for a key not yet there.
\<close>

definition add_decrement :: "(string \<times> int) list \<Rightarrow> cart_line \<Rightarrow> (string \<times> int) list" where
  "add_decrement acc item =
     (case map_of acc (productId item) of
        None \<Rightarrow> acc @ [(productId item, 0 + quantity item)]
      | Some _ \<Rightarrow> map (\<lambda>(k, v). if k = productId item then (k, v + quantity item) else (k, v)) acc)"

definition decrementStock :: "cart_line list \<Rightarrow> (string \<times> int) list" where
  "decrementStock items = foldl add_decrement [] items"

fun stockUpdates :: "(string \<times> int) list \<Rightarrow> unit query" where
  "stockUpdates [] s = (Inr (), s)"
| "stockUpdates ((pid, n) # rest) s =
     (case product_update_decrement pid n s of
        (Inl e, s') \<Rightarrow> (Inl e, s')
      | (Inr _, s') \<Rightarrow> stockUpdates rest s')"

definition line_of :: "cartItem_row \<Rightarrow> cart_line" where
  "line_of i = \<lparr>productId = ci_productId i, quantity = ci_quantity i\<rparr>"

definition priced_of :: "product_row \<Rightarrow> priced" where
  "priced_of p = \<lparr>id_of = p_id p, price_of = p_price p\<rparr>"

definition productStock_of :: "product_row list \<Rightarrow> stock_table" where
  "productStock_of ps = foldl (\<lambda>acc product. acc(p_id product \<mapsto> p_stockQty product)) Map.empty ps"

definition checkout_tx ::
  "env \<Rightarrow> string \<Rightarrow> string \<Rightarrow> ((order_row \<times> orderItem_row list) \<times> transaction_row) query" where
  "checkout_tx env userId shippingAddressId s =
     (case cart_findUnique userId s of
        None \<Rightarrow> (Inl (Error ''Cart is empty''), s)
      | Some cart \<Rightarrow>
     (case include_product s (cartItem_findMany (c_id cart) s) of
        Inl e \<Rightarrow> (Inl e, s)
      | Inr cart_cartItems \<Rightarrow>
     if length cart_cartItems = 0 then (Inl (Error ''Cart is empty''), s)
     else if userAddress_count shippingAddressId s = 0
     then (Inl (Error ''Shipping address not found''), s)
     else
       (let productIds = map (\<lambda>(item, product). ci_productId item) cart_cartItems;
            found = product_findMany productIds s;
            cartItems = map line_of (cartItem_findMany (c_id cart) s);
            productStock = productStock_of found
        in case validateProductStock cartItems productStock of
             Inl e \<Rightarrow> (Inl e, s)
           | Inr _ \<Rightarrow>
       (let totalPrice = calculateTotalPrice (map (\<lambda>(item, product). line_of item) cart_cartItems)
                           (map priced_of found)
        in case order_create env userId totalPrice shippingAddressId
                  (map (\<lambda>(item, product). (ci_productId item, ci_quantity item, p_price product))
                       cart_cartItems) s of
             (Inl e, s1) \<Rightarrow> (Inl e, s1)
           | (Inr order, s1) \<Rightarrow>
       (let decrements = decrementStock (map (\<lambda>(item, product). line_of item) cart_cartItems);
            invoiceNumber = generateInvoiceNumber (today env) (randomPool env)
        in case transaction_create env invoiceNumber (Number_decimal (o_totalPrice (fst order)))
                  (o_id (fst order)) s1 of
             (Inl e, s2) \<Rightarrow> (Inl e, s2)
           | (Inr transaction, s2) \<Rightarrow>
               (case stockUpdates decrements s2 of
                  (Inl e, s3) \<Rightarrow> (Inl e, s3)
                | (Inr _, s3) \<Rightarrow> (Inr (order, transaction), cartItem_deleteMany (c_id cart) s3)))))))"

definition checkout ::
  "env \<Rightarrow> string \<Rightarrow> string \<Rightarrow> ((order_row \<times> orderItem_row list) \<times> transaction_row) query" where
  "checkout env userId shippingAddressId = db_transaction (checkout_tx env userId shippingAddressId)"



section \<open>Notions of the specification\<close>

text \<open>
  The available stock of a product as the specification reads it: a product that is not in
  the store, or whose stock is \<^verbatim>\<open>null\<close>, has none. A cart item exceeds the stock when its
  quantity is larger.
\<close>

definition available_stock :: "db \<Rightarrow> string \<Rightarrow> int" where
  "available_stock s pid =
     (case product_findUnique pid s of
        None \<Rightarrow> 0
      | Some p \<Rightarrow> (case p_stockQty p of None \<Rightarrow> 0 | Some n \<Rightarrow> n))"

definition exceeds_stock :: "db \<Rightarrow> cartItem_row \<Rightarrow> bool" where
  "exceeds_stock s i \<longleftrightarrow> available_stock s (ci_productId i) < ci_quantity i"

text \<open>The store with the owner of every address replaced.\<close>

definition reown :: "(userAddress_row \<Rightarrow> string) \<Rightarrow> db \<Rightarrow> db" where
  "reown f s = s\<lparr>userAddresses := map (\<lambda>r. r\<lparr>a_userId := f r\<rparr>) (userAddresses s)\<rparr>"

section \<open>Example stores\<close>

text \<open>
  User \<open>u1\<close> has a cart with two units of product \<open>pA\<close> (price 45000, stock 5); the only
  address, \<open>a1\<close>, belongs to user \<open>u2\<close>.
\<close>

definition example_db :: db where
  "example_db =
     \<lparr>carts = [\<lparr>c_id = ''c1'', c_userId = ''u1''\<rparr>],
      cartItems = [\<lparr>ci_id = ''i1'', ci_quantity = 2, ci_productId = ''pA'', ci_cartId = ''c1''\<rparr>],
      products = [\<lparr>p_id = ''pA'', p_name = ''Kopi'', p_price = Some (Dec 45000), p_stockQty = Some 5\<rparr>],
      userAddresses = [\<lparr>a_id = ''a1'', a_userId = ''u2''\<rparr>],
      orders = [], orderItems = [], transactions = []\<rparr>"

text \<open>
  For the examples the three numeric columns of the order tables are taken to be of
  PostgreSQL's type \<^verbatim>\<open>MONEY\<close>, the type of the product price: a value is kept to two decimal
  places, rounded half away from zero, within the range of a 64-bit count of cents; NaN and
  the infinities are rejected.
\<close>

definition cents :: "rat \<Rightarrow> rat" where
  "cents r = (if 0 \<le> r then of_int \<lfloor>r * 100 + 1 / 2\<rfloor> / 100
              else - (of_int \<lfloor>- r * 100 + 1 / 2\<rfloor> / 100))"

definition money :: "rat \<Rightarrow> decimal option" where
  "money r = (if \<bar>cents r\<bar> * 100 < 2 ^ 63 then Some (Dec (cents r)) else None)"

fun money_of_number :: "js_number \<Rightarrow> decimal option" where
  "money_of_number (Num r) = money r"
| "money_of_number _ = None"

fun money_of_decimal :: "decimal \<Rightarrow> decimal option" where
  "money_of_decimal (Dec r) = money r"
| "money_of_decimal _ = None"

definition example_env :: env where
  "example_env =
     \<lparr>newCartId = ''c9'', newCartItemId = ''i9'', newOrderId = ''o1'',
      newOrderItemId = (\<lambda>k. ''oi'' @ show_nat k), newTransactionId = ''t1'',
      today = \<lparr>year = 2024, month = 12, day = 13\<rparr>, randomPool = [44, 7, 0, 1, 2, 3, 99],
      totalPriceColumn = money_of_number, priceColumn = money_of_decimal,
      amountColumn = money_of_number\<rparr>"

text \<open>The same store where the invoice number about to be generated is already taken.\<close>

definition collision_db :: db where
  "collision_db =
     example_db\<lparr>transactions :=
                   [\<lparr>t_id = ''t0'', t_noInvoice = ''INV-20241213-_musea'', t_amount = Dec 1,
                     t_status = ''Pending'', t_orderId = ''o0''\<rparr>]\<rparr>"

text \<open>A cart of three products, two of them short of stock.\<close>

definition shortage_db :: db where
  "shortage_db =
     \<lparr>carts = [\<lparr>c_id = ''c1'', c_userId = ''u1''\<rparr>],
      cartItems = [\<lparr>ci_id = ''i1'', ci_quantity = 2, ci_productId = ''pA'', ci_cartId = ''c1''\<rparr>,
                   \<lparr>ci_id = ''i2'', ci_quantity = 1, ci_productId = ''pB'', ci_cartId = ''c1''\<rparr>,
                   \<lparr>ci_id = ''i3'', ci_quantity = 3, ci_productId = ''pC'', ci_cartId = ''c1''\<rparr>],
      products = [\<lparr>p_id = ''pA'', p_name = ''Kopi'', p_price = Some (Dec 45000), p_stockQty = Some 1\<rparr>,
                  \<lparr>p_id = ''pB'', p_name = ''Teh'', p_price = Some (Dec 30000), p_stockQty = Some 10\<rparr>,
                  \<lparr>p_id = ''pC'', p_name = ''Gula'', p_price = Some (Dec 12000), p_stockQty = Some 0\<rparr>],
      userAddresses = [\<lparr>a_id = ''a1'', a_userId = ''u1''\<rparr>],
      orders = [], orderItems = [], transactions = []\<rparr>"

section \<open>Reading an invoice number\<close>

text \<open>The number a string of decimal digits denotes.\<close>

definition digit_of :: "char \<Rightarrow> nat" where
  "digit_of c = of_char c - 48"

definition nat_of_digits :: "string \<Rightarrow> nat" where
  "nat_of_digits ds = foldl (\<lambda>a c. 10 * a + digit_of c) 0 ds"

text \<open>The characters of nanoid's alphabet: letters, digits, underscore and hyphen.\<close>

definition url_safe :: "char \<Rightarrow> bool" where
  "url_safe c \<longleftrightarrow> alphanumeric c \<or> c = CHR ''_'' \<or> c = CHR ''-''"

section \<open>Exact totals\<close>

text \<open>
  The exact value of a price (0 when there is none) and the exact sum of quantity times
  price, over the arguments of \<^verbatim>\<open>calculateTotalPrice\<close> and over the joined items that
  \<^verbatim>\<open>getCart\<close> totals.
\<close>

fun price_value :: "decimal option \<Rightarrow> rat" where
  "price_value (Some (Dec r)) = r"
| "price_value _ = 0"

definition unit_price :: "priced list \<Rightarrow> string \<Rightarrow> rat" where
  "unit_price prods pid =
     (case find (\<lambda>p. id_of p = pid) prods of
        None \<Rightarrow> 0
      | Some p \<Rightarrow> price_value (price_of p))"

definition exact_total :: "cart_line list \<Rightarrow> priced list \<Rightarrow> rat" where
  "exact_total items prods =
     (\<Sum>item\<leftarrow>items. of_int (quantity item) * unit_price prods (productId item))"

definition exact_cart_total :: "(cartItem_row \<times> product_row) list \<Rightarrow> rat" where
  "exact_cart_total joined =
     (\<Sum>(item, product)\<leftarrow>joined. of_int (ci_quantity item) * price_value (p_price product))"

text \<open>The example of the specification: two units at 45000 and one at 30000.\<close>

definition example_lines :: "cart_line list" where
  "example_lines = [\<lparr>productId = ''pA'', quantity = 2\<rparr>, \<lparr>productId = ''pB'', quantity = 1\<rparr>]"

definition example_prices :: "priced list" where
  "example_prices = [\<lparr>id_of = ''pA'', price_of = Some (Dec 45000)\<rparr>,
                     \<lparr>id_of = ''pB'', price_of = Some (Dec 30000)\<rparr>]"

definition example_joined :: "(cartItem_row \<times> product_row) list" where
  "example_joined =
     [(\<lparr>ci_id = ''i1'', ci_quantity = 2, ci_productId = ''pA'', ci_cartId = ''c1''\<rparr>,
       \<lparr>p_id = ''pA'', p_name = ''Kopi'', p_price = Some (Dec 45000), p_stockQty = Some 5\<rparr>),
      (\<lparr>ci_id = ''i2'', ci_quantity = 1, ci_productId = ''pB'', ci_cartId = ''c1''\<rparr>,
       \<lparr>p_id = ''pB'', p_name = ''Teh'', p_price = Some (Dec 30000), p_stockQty = Some 10\<rparr>)]"

text \<open>Three units of a product whose price is 1.10.\<close>

definition cents_lines :: "cart_line list" where
  "cents_lines = [\<lparr>productId = ''pA'', quantity = 3\<rparr>]"

definition cents_prices :: "priced list" where
  "cents_prices = [\<lparr>id_of = ''pA'', price_of = Some (Dec (11 / 10))\<rparr>]"

text \<open>The example store with the price of \<open>pA\<close> missing, and with a price that is NaN.\<close>

definition unpriced_db :: db where
  "unpriced_db =
     example_db\<lparr>products := [\<lparr>p_id = ''pA'', p_name = ''Kopi'', p_price = None, p_stockQty = Some 5\<rparr>]\<rparr>"

definition nan_db :: db where
  "nan_db =
     example_db\<lparr>products := [\<lparr>p_id = ''pA'', p_name = ''Kopi'', p_price = Some DecNaN, p_stockQty = Some 5\<rparr>]\<rparr>"

section \<open>What a successful checkout leaves\<close>

text \<open>
  The items of a cart, the price of the product with a given id (0 when there is no such
  product or it has no price) and the exact sum of quantity times price over a list of items,
  all read off the tables; then the quantity of a product over all items of a cart.
\<close>

definition cart_items :: "db \<Rightarrow> cart_row \<Rightarrow> cartItem_row list" where
  "cart_items s cart = [i \<leftarrow> cartItems s. ci_cartId i = c_id cart]"

definition price_in :: "db \<Rightarrow> string \<Rightarrow> rat" where
  "price_in s pid =
     (case [p \<leftarrow> products s. p_id p = pid] of
        [] \<Rightarrow> 0
      | p # _ \<Rightarrow> price_value (p_price p))"

definition order_sum :: "db \<Rightarrow> cartItem_row list \<Rightarrow> rat" where
  "order_sum s items = (\<Sum>i\<leftarrow>items. of_int (ci_quantity i) * price_in s (ci_productId i))"

definition cart_quantity :: "cartItem_row list \<Rightarrow> string \<Rightarrow> int" where
  "cart_quantity items pid = (\<Sum>i\<leftarrow>filter (\<lambda>i. ci_productId i = pid) items. ci_quantity i)"

text \<open>
  The total as checkout computes it before it is stored, in terms of the queries: used in the
  proofs only.
\<close>

definition product_price :: "db \<Rightarrow> string \<Rightarrow> decimal option" where
  "product_price s pid = (case product_findUnique pid s of None \<Rightarrow> None | Some p \<Rightarrow> p_price p)"

definition cart_total :: "db \<Rightarrow> cartItem_row list \<Rightarrow> js_number" where
  "cart_total s items =
     foldl (\<lambda>acc i. js_add acc (js_mul (Number_int (ci_quantity i))
                                        (Number_price (product_price s (ci_productId i)))))
           (Num 0) items"

text \<open>
  A store with two users. The cart \<open>c1\<close> of \<open>u1\<close> holds two units of \<open>pA\<close> and one of \<open>pB\<close>;
  \<open>u2\<close> has a cart with one unit of \<open>pA\<close>; product \<open>pC\<close> is in no cart; an earlier order with
  its transaction is in the tables.
\<close>

definition shop_db :: db where
  "shop_db =
     \<lparr>carts = [\<lparr>c_id = ''c1'', c_userId = ''u1''\<rparr>, \<lparr>c_id = ''c2'', c_userId = ''u2''\<rparr>],
      cartItems = [\<lparr>ci_id = ''i1'', ci_quantity = 2, ci_productId = ''pA'', ci_cartId = ''c1''\<rparr>,
                   \<lparr>ci_id = ''i2'', ci_quantity = 1, ci_productId = ''pA'', ci_cartId = ''c2''\<rparr>,
                   \<lparr>ci_id = ''i3'', ci_quantity = 1, ci_productId = ''pB'', ci_cartId = ''c1''\<rparr>],
      products = [\<lparr>p_id = ''pA'', p_name = ''Kopi'', p_price = Some (Dec 45000), p_stockQty = Some 5\<rparr>,
                  \<lparr>p_id = ''pB'', p_name = ''Teh'', p_price = Some (Dec 30000), p_stockQty = Some 10\<rparr>,
                  \<lparr>p_id = ''pC'', p_name = ''Gula'', p_price = Some (Dec 12000), p_stockQty = Some 7\<rparr>],
      userAddresses = [\<lparr>a_id = ''a1'', a_userId = ''u1''\<rparr>],
      orders = [\<lparr>o_id = ''o0'', o_userId = ''u2'', o_totalPrice = Dec 12000, o_status = ''pending'',
                 o_shippingAddressId = ''a0''\<rparr>],
      orderItems = [\<lparr>oi_id = ''oi9'', oi_orderId = ''o0'', oi_productId = ''pC'', oi_quantity = 1,
                     oi_price = Dec 12000\<rparr>],
      transactions = [\<lparr>t_id = ''t0'', t_noInvoice = ''INV-20241212-abcdef'', t_amount = Dec 12000,
                       t_status = ''Pending'', t_orderId = ''o0''\<rparr>]\<rparr>"

text \<open>
  The example store with one unit of a product priced 70368744177664.01 in the cart: binary64
  has no value between 70368744177664 and 70368744177664.015625.
\<close>

definition large_price_db :: db where
  "large_price_db =
     example_db\<lparr>cartItems := [\<lparr>ci_id = ''i1'', ci_quantity = 1, ci_productId = ''pA'', ci_cartId = ''c1''\<rparr>],
                products := [\<lparr>p_id = ''pA'', p_name = ''Kopi'',
                               p_price = Some (Dec (7036874417766401 / 100)), p_stockQty = Some 5\<rparr>]\<rparr>"
section \<open>Auxiliary facts about the queries\<close>

lemma find_filter: "find P (filter Q xs) = find (\<lambda>x. Q x \<and> P x) xs"
  by (induction xs) auto

lemma find_append: "find P (xs @ ys) = (case find P xs of None \<Rightarrow> find P ys | Some x \<Rightarrow> Some x)"
  by (induction xs) auto

lemma userAddress_count_pos:
  "userAddress_count a s \<noteq> 0 \<longleftrightarrow> (\<exists>r \<in> set (userAddresses s). a_id r = a)"
  by (auto simp: userAddress_count_def filter_empty_conv)

lemma include_product_Inr:
  "\<forall>i \<in> set items. product_findUnique (ci_productId i) s \<noteq> None \<Longrightarrow>
   include_product s items = Inr (map (\<lambda>i. (i, the (product_findUnique (ci_productId i) s))) items)"
  by (induction items) auto

lemma include_product_error:
  "include_product s items = Inl e \<Longrightarrow> e = PrismaError ''Inconsistent query result''"
  by (induction items arbitrary: e) (auto split: option.splits sum.splits)

lemma validateProductStock_error:
  "validateProductStock items st = Inl e \<Longrightarrow>
   e = Error (''Insufficient stock for product(s): '' @
              join '', '' (map productId (filter (\<lambda>item. js_lt (st (productId item)) (quantity item)) items)))"
  by (auto simp: validateProductStock_def Let_def split: if_splits)

lemma stockUpdates_error: "stockUpdates al s = (Inl e, s') \<Longrightarrow> e = PrismaError ''P2025''"
proof (induction al arbitrary: s)
  case Nil
  then show ?case by simp
next
  case (Cons a al)
  obtain pid n where a: "a = (pid, n)" by (cases a)
  show ?case
  proof (cases "\<exists>p \<in> set (products s). p_id p = pid")
    case True
    then show ?thesis using Cons by (auto simp: a product_update_decrement_def)
  next
    case False
    then show ?thesis using Cons.prems by (auto simp: a product_update_decrement_def)
  qed
qed

subsection \<open>The stock table of checkout\<close>

lemma productStock_of_snoc:
  "productStock_of (ps @ [p]) = (productStock_of ps)(p_id p \<mapsto> p_stockQty p)"
  by (simp add: productStock_of_def)

lemma productStock_of_lookup:
  "distinct (map p_id ps) \<Longrightarrow>
   productStock_of ps pid = map_option p_stockQty (find (\<lambda>p. p_id p = pid) ps)"
proof (induction ps rule: rev_induct)
  case Nil
  show ?case by (simp add: productStock_of_def)
next
  case (snoc p ps)
  then have d: "distinct (map p_id ps)" and n: "p_id p \<notin> p_id ` set ps" by auto
  show ?case
  proof (cases "pid = p_id p")
    case True
    with n have "find (\<lambda>q. p_id q = pid) ps = None"
      unfolding find_None_iff by (metis imageI)
    then show ?thesis using True by (simp add: productStock_of_snoc find_append)
  next
    case False
    then show ?thesis using snoc.IH[OF d]
      by (auto simp: productStock_of_snoc find_append split: option.splits)
  qed
qed

lemma find_findMany:
  "pid \<in> set ids \<Longrightarrow> find (\<lambda>p. p_id p = pid) (product_findMany ids s) = product_findUnique pid s"
  by (auto simp: product_findMany_def product_findUnique_def find_filter intro!: arg_cong2[where f=find])

lemma productStock_of_findMany:
  assumes "distinct (map p_id (products s))" and "pid \<in> set ids"
  shows "productStock_of (product_findMany ids s) pid = map_option p_stockQty (product_findUnique pid s)"
proof -
  have "distinct (map p_id (product_findMany ids s))"
    using assms(1) by (simp add: product_findMany_def distinct_map_filter)
  then have "productStock_of (product_findMany ids s) pid =
      map_option p_stockQty (find (\<lambda>p. p_id p = pid) (product_findMany ids s))"
    by (rule productStock_of_lookup)
  then show ?thesis by (simp add: find_findMany[OF assms(2)])
qed

lemma js_lt_exceeds:
  assumes "distinct (map p_id (products s))" and "ci_productId i \<in> set ids"
    and "product_findUnique (ci_productId i) s \<noteq> None"
  shows "js_lt (productStock_of (product_findMany ids s) (productId (line_of i))) (quantity (line_of i))
         \<longleftrightarrow> exceeds_stock s i"
  using assms(3)
  by (auto simp: productStock_of_findMany[OF assms(1,2)] line_of_def exceeds_stock_def available_stock_def
      split: option.splits)

lemma insufficient_lines:
  assumes pk: "distinct (map p_id (products s))"
    and ex: "\<forall>i \<in> set items. product_findUnique (ci_productId i) s \<noteq> None"
  shows "filter (\<lambda>item. js_lt (productStock_of (product_findMany (map ci_productId items) s) (productId item))
                          (quantity item)) (map line_of items)
         = map line_of (filter (exceeds_stock s) items)"
proof -
  have "\<And>i. i \<in> set items \<Longrightarrow>
      js_lt (productStock_of (product_findMany (map ci_productId items) s) (productId (line_of i)))
            (quantity (line_of i)) \<longleftrightarrow> exceeds_stock s i"
    using ex by (intro js_lt_exceeds[OF pk]) auto
  then show ?thesis
    by (simp add: filter_map comp_def cong: filter_cong)
qed

lemma validate_cart:
  assumes pk: "distinct (map p_id (products s))"
    and ex: "\<forall>i \<in> set items. product_findUnique (ci_productId i) s \<noteq> None"
  shows "validateProductStock (map line_of items)
           (productStock_of (product_findMany (map ci_productId items) s))
         = (if filter (exceeds_stock s) items = [] then Inr ()
            else Inl (Error (''Insufficient stock for product(s): '' @
                             join '', '' (map ci_productId (filter (exceeds_stock s) items)))))"
  unfolding validateProductStock_def Let_def insufficient_lines[OF pk ex]
  by (simp add: comp_def line_of_def)

subsection \<open>Replacing the owners of the addresses\<close>

lemma include_product_reown [simp]: "include_product (reown f s) items = include_product s items"
  by (induction items) (auto simp: reown_def product_findUnique_def split: option.splits sum.splits)

lemma userAddress_count_reown [simp]: "userAddress_count a (reown f s) = userAddress_count a s"
  by (simp add: userAddress_count_def reown_def filter_map comp_def)

lemma queries_reown [simp]:
  "cart_findUnique u (reown f s) = cart_findUnique u s"
  "cartItem_findMany c (reown f s) = cartItem_findMany c s"
  "product_findMany ids (reown f s) = product_findMany ids s"
  "cartItem_deleteMany c (reown f s) = reown f (cartItem_deleteMany c s)"
  by (simp_all add: cart_findUnique_def cartItem_findMany_def product_findMany_def
        cartItem_deleteMany_def reown_def)

lemma order_create_reown:
  "order_create env u tp a items (reown f s) =
     (fst (order_create env u tp a items s), reown f (snd (order_create env u tp a items s)))"
  by (simp add: order_create_def reown_def Let_def split: option.splits)

lemma transaction_create_reown:
  "transaction_create env no amt oid (reown f s) =
     (fst (transaction_create env no amt oid s), reown f (snd (transaction_create env no amt oid s)))"
  by (simp add: transaction_create_def reown_def Let_def split: option.splits)

lemma stockUpdates_reown:
  "stockUpdates al (reown f s) = (fst (stockUpdates al s), reown f (snd (stockUpdates al s)))"
proof (induction al arbitrary: s)
  case Nil
  show ?case by simp
next
  case (Cons a al)
  obtain pid n where a: "a = (pid, n)" by (cases a)
  show ?case
  proof (cases "\<exists>p \<in> set (products s). p_id p = pid")
    case True
    let ?s' = "s\<lparr>products := map (\<lambda>p. if p_id p = pid
                                     then p\<lparr>p_stockQty := map_option (\<lambda>v. v - n) (p_stockQty p)\<rparr>
                                     else p) (products s)\<rparr>"
    have 1: "product_update_decrement pid n s = (Inr (), ?s')"
      using True by (simp add: product_update_decrement_def)
    have 2: "product_update_decrement pid n (reown f s) = (Inr (), reown f ?s')"
      using True by (simp add: product_update_decrement_def reown_def)
    show ?thesis using Cons.IH[of ?s'] by (simp add: a 1 2)
  next
    case False
    then show ?thesis by (simp add: a product_update_decrement_def reown_def)
  qed
qed

lemma checkout_tx_reown:
  "checkout_tx env u a (reown f s) = (fst (checkout_tx env u a s), reown f (snd (checkout_tx env u a s)))"
  unfolding checkout_tx_def Let_def
  by (auto simp: order_create_reown transaction_create_reown stockUpdates_reown
        split: option.splits sum.splits prod.splits)

lemma checkout_tx_address_found:
  assumes "\<exists>r \<in> set (userAddresses s). a_id r = a"
  shows "fst (checkout_tx env u a s) \<noteq> Inl (Error ''Shipping address not found'')"
proof -
  have c: "userAddress_count a s \<noteq> 0" using assms userAddress_count_pos[of a s] by blast
  show ?thesis
    unfolding checkout_tx_def Let_def
    using c
    by (auto simp: transaction_create_def order_create_def Let_def
          split: option.splits sum.splits prod.splits if_splits
          dest!: validateProductStock_error stockUpdates_error include_product_error)
qed

section \<open>Checkout is atomic\<close>

text \<open>
  C1. Checkout atomicity: when \<^verbatim>\<open>checkout(userId, shippingAddressId)\<close> fails at any step (an
  empty cart, a missing address, insufficient stock, a failed write), the store afterwards
  is the store before: the cart has its original items, no order, order item or transaction
  of the attempt exists, and every stock quantity is unchanged. The whole body runs inside
  \<^verbatim>\<open>db.$transaction\<close>, which rolls its writes back.
\<close>

theorem checkout_atomic:
  "fst (checkout env userId shippingAddressId s) = Inl e \<Longrightarrow>
   snd (checkout env userId shippingAddressId s) = s"
  by (auto simp: checkout_def db_transaction_def split: prod.splits sum.splits)

text \<open>
  In \<open>collision_db\<close> the creation of the transaction row fails on the unique invoice number,
  after the order has been written by the body: the body alone leaves the order behind, the
  checkout does not.
\<close>

theorem checkout_atomic_witness:
  "fst (checkout example_env ''u1'' ''a1'' collision_db) = Inl (PrismaError ''P2002'')
   \<and> snd (checkout example_env ''u1'' ''a1'' collision_db) = collision_db
   \<and> length (orders (snd (checkout_tx example_env ''u1'' ''a1'' collision_db))) = 1
   \<and> orders collision_db = []"
proof -
  have f: "fst (checkout example_env ''u1'' ''a1'' collision_db) = Inl (PrismaError ''P2002'')"
    by code_simp
  have b: "length (orders (snd (checkout_tx example_env ''u1'' ''a1'' collision_db))) = 1"
    by code_simp
  have o: "orders collision_db = []"
    by (simp add: collision_db_def example_db_def)
  from checkout_atomic[OF f] f b o show ?thesis by simp
qed

section \<open>Stock validation in checkout\<close>

text \<open>
  C2. Checkout stock validation: when some cart item asks for more than the available stock
  of its product, checkout fails with the insufficient-stock error, whose message lists the
  product of every such item (all of them, in cart order, not only the first), and the store
  is unchanged, so no order exists for any item. The code raises it as
  \<^verbatim>\<open>new Error("Insufficient stock for product(s): ...")\<close> and names the products by their ids.
  The steps before the validation have passed: the user has a cart, its items have their
  products, the address exists.
\<close>

theorem checkout_insufficient_stock:
  assumes cart: "cart_findUnique userId s = Some cart"
    and ex: "\<forall>i \<in> set (cartItem_findMany (c_id cart) s). product_findUnique (ci_productId i) s \<noteq> None"
    and addr: "\<exists>r \<in> set (userAddresses s). a_id r = shippingAddressId"
    and pk: "distinct (map p_id (products s))"
    and over: "\<exists>i \<in> set (cartItem_findMany (c_id cart) s). exceeds_stock s i"
  shows "checkout env userId shippingAddressId s =
           (Inl (Error (''Insufficient stock for product(s): '' @
                        join '', '' (map ci_productId
                                       (filter (exceeds_stock s) (cartItem_findMany (c_id cart) s))))), s)"
proof -
  let ?items = "cartItem_findMany (c_id cart) s"
  have ne: "?items \<noteq> []" using over by auto
  have off: "filter (exceeds_stock s) ?items \<noteq> []" using over by (auto simp: filter_empty_conv)
  have cnt: "userAddress_count shippingAddressId s \<noteq> 0"
    using addr by (auto simp: userAddress_count_def filter_empty_conv)
  have "checkout_tx env userId shippingAddressId s =
           (Inl (Error (''Insufficient stock for product(s): '' @
                        join '', '' (map ci_productId (filter (exceeds_stock s) ?items)))), s)"
    unfolding checkout_tx_def Let_def
    by (simp add: cart include_product_Inr[OF ex] ne cnt comp_def validate_cart[OF pk ex] off)
  then show ?thesis by (simp add: checkout_def db_transaction_def)
qed

theorem checkout_insufficient_stock_witness:
  "checkout example_env ''u1'' ''a1'' shortage_db =
     (Inl (Error ''Insufficient stock for product(s): pA, pC''), shortage_db)"
proof -
  let ?cart = "\<lparr>c_id = ''c1'', c_userId = ''u1''\<rparr>"
  have cart: "cart_findUnique ''u1'' shortage_db = Some ?cart"
    by (simp add: cart_findUnique_def shortage_db_def)
  have items: "cartItem_findMany (c_id ?cart) shortage_db = cartItems shortage_db"
    by (simp add: cartItem_findMany_def shortage_db_def)
  have ex: "\<forall>i \<in> set (cartItem_findMany (c_id ?cart) shortage_db).
              product_findUnique (ci_productId i) shortage_db \<noteq> None"
    unfolding items by (simp add: shortage_db_def product_findUnique_def)
  have addr: "\<exists>r \<in> set (userAddresses shortage_db). a_id r = ''a1''"
    by (simp add: shortage_db_def)
  have pk: "distinct (map p_id (products shortage_db))"
    by (simp add: shortage_db_def)
  have over: "\<exists>i \<in> set (cartItem_findMany (c_id ?cart) shortage_db). exceeds_stock shortage_db i"
    unfolding items
    by (simp add: shortage_db_def exceeds_stock_def available_stock_def product_findUnique_def)
  have names: "map ci_productId (filter (exceeds_stock shortage_db)
                  (cartItem_findMany (c_id ?cart) shortage_db)) = [''pA'', ''pC'']"
    unfolding items
    by (simp add: shortage_db_def exceeds_stock_def available_stock_def product_findUnique_def)
  show ?thesis
    unfolding checkout_insufficient_stock[OF cart ex addr pk over, of example_env] names
    by simp
qed

section \<open>Stock validation and products that no longer exist\<close>

text \<open>
  C4. The claim: a cart item whose product id is absent from the stock mapping counts as
  having zero stock, so a positive requested quantity fails the validation. The code
  compares \<^verbatim>\<open>undefined < quantity\<close>, which is false: with an empty stock table an item
  asking for two units of product \<open>p1\<close> passes the validation.
\<close>

theorem validateProductStock_absent_product_passes:
  "validateProductStock [\<lparr>productId = ''p1'', quantity = 2\<rparr>] Map.empty = Inr ()"
  by (simp add: validateProductStock_def)

section \<open>The owner of the shipping address\<close>

text \<open>
  C10. Checkout does not look at the owner of the shipping address: its outcome is the same
  whoever owns the address rows, and whenever a row with the given id exists, of any owner,
  the address check passes.
\<close>

theorem checkout_ignores_address_owner:
  "checkout env userId shippingAddressId (reown f s) =
     (fst (checkout env userId shippingAddressId s), reown f (snd (checkout env userId shippingAddressId s)))
   \<and> ((\<exists>r \<in> set (userAddresses s). a_id r = shippingAddressId) \<longrightarrow>
        fst (checkout env userId shippingAddressId s) \<noteq> Inl (Error ''Shipping address not found''))"
proof (intro conjI impI)
  show "checkout env userId shippingAddressId (reown f s) =
     (fst (checkout env userId shippingAddressId s), reown f (snd (checkout env userId shippingAddressId s)))"
    by (cases "checkout_tx env userId shippingAddressId s"; cases "fst (checkout_tx env userId shippingAddressId s)")
       (simp_all add: checkout_def db_transaction_def checkout_tx_reown)
next
  assume "\<exists>r \<in> set (userAddresses s). a_id r = shippingAddressId"
  from checkout_tx_address_found[OF this, of env userId]
  show "fst (checkout env userId shippingAddressId s) \<noteq> Inl (Error ''Shipping address not found'')"
    by (cases "checkout_tx env userId shippingAddressId s"; cases "fst (checkout_tx env userId shippingAddressId s)")
       (simp_all add: checkout_def db_transaction_def)
qed

text \<open>
  In \<open>example_db\<close> the address \<open>a1\<close> belongs to \<open>u2\<close>; the checkout of \<open>u1\<close> with it goes
  through and the order refers to that address.
\<close>

theorem checkout_ignores_address_owner_witness:
  "map a_userId (filter (\<lambda>r. a_id r = ''a1'') (userAddresses example_db)) = [''u2'']
   \<and> fst (checkout example_env ''u1'' ''a1'' example_db) \<noteq> Inl (Error ''Shipping address not found'')
   \<and> map_sum id (\<lambda>r. o_shippingAddressId (fst (fst r))) (fst (checkout example_env ''u1'' ''a1'' example_db))
       = Inr ''a1''"
proof -
  have a: "map a_userId (filter (\<lambda>r. a_id r = ''a1'') (userAddresses example_db)) = [''u2'']"
    by (simp add: example_db_def)
  have e: "\<exists>r \<in> set (userAddresses example_db). a_id r = ''a1''"
    by (simp add: example_db_def)
  have c: "map_sum id (\<lambda>r. o_shippingAddressId (fst (fst r)))
             (fst (checkout example_env ''u1'' ''a1'' example_db)) = Inr ''a1''"
    by code_simp
  from checkout_ignores_address_owner[of example_env "''u1''" "''a1''" a_userId example_db] e a c
  show ?thesis by blast
qed

section \<open>Adding and updating cart items\<close>

subsection \<open>Auxiliary facts\<close>

lemma cart_upsert_other [simp]:
  "products (snd (cart_upsert env u s)) = products s"
  "cartItems (snd (cart_upsert env u s)) = cartItems s"
  by (auto simp: cart_upsert_def Let_def split: option.splits)

lemma product_findUnique_upsert [simp]:
  "product_findUnique pid (snd (cart_upsert env u s)) = product_findUnique pid s"
  by (simp add: product_findUnique_def)

lemma cart_findUnique_Some:
  "cart_findUnique u s = Some c \<Longrightarrow> c \<in> set (carts s) \<and> c_userId c = u"
  by (auto simp: cart_findUnique_def find_Some_iff)

lemma cart_findUnique_None:
  "cart_findUnique u s = None \<longleftrightarrow> (\<forall>c \<in> set (carts s). c_userId c \<noteq> u)"
  by (auto simp: cart_findUnique_def find_None_iff)

lemma cartItem_findFirst_upsert:
  assumes "newCartId env \<notin> ci_cartId ` set (cartItems s)"
  shows "cartItem_findFirst u pid (snd (cart_upsert env u s)) = cartItem_findFirst u pid s"
proof (cases "cart_findUnique u s")
  case (Some c)
  then show ?thesis by (simp add: cart_upsert_def)
next
  case None
  have n: "\<And>i. i \<in> set (cartItems s) \<Longrightarrow> ci_cartId i \<noteq> newCartId env"
    using assms by (metis imageI)
  have up: "cart_upsert env u s = (\<lparr>c_id = newCartId env, c_userId = u\<rparr>,
                                   s\<lparr>carts := carts s @ [\<lparr>c_id = newCartId env, c_userId = u\<rparr>]\<rparr>)"
    using None by (simp add: cart_upsert_def Let_def)
  have "find (\<lambda>i. ci_productId i = pid \<and>
               (\<exists>c \<in> set (carts s @ [\<lparr>c_id = newCartId env, c_userId = u\<rparr>]).
                    c_id c = ci_cartId i \<and> c_userId c = u)) (cartItems s)
        = find (\<lambda>i. ci_productId i = pid \<and>
               (\<exists>c \<in> set (carts s). c_id c = ci_cartId i \<and> c_userId c = u)) (cartItems s)"
  proof (rule find_cong[OF refl])
    fix x assume "x \<in> set (cartItems s)"
    then have "ci_cartId x \<noteq> newCartId env" by (rule n)
    then show "(ci_productId x = pid \<and>
               (\<exists>c \<in> set (carts s @ [\<lparr>c_id = newCartId env, c_userId = u\<rparr>]).
                    c_id c = ci_cartId x \<and> c_userId c = u))
        = (ci_productId x = pid \<and>
               (\<exists>c \<in> set (carts s). c_id c = ci_cartId x \<and> c_userId c = u))"
      by auto
  qed
  then show ?thesis by (simp add: up cartItem_findFirst_def)
qed

lemma cart_of_user_unique:
  assumes d: "distinct (map c_userId (carts s))"
    and c: "c \<in> set (carts s)" "c_userId c = u"
  shows "cart_findUnique u s = Some c"
proof -
  from c have "cart_findUnique u s \<noteq> None" by (auto simp: cart_findUnique_None)
  then obtain c' where c': "cart_findUnique u s = Some c'" by blast
  then have "c' \<in> set (carts s)" "c_userId c' = u" using cart_findUnique_Some by blast+
  with c d have "c' = c" by (metis distinct_map inj_onD)
  with c' show ?thesis by simp
qed


subsection \<open>The quantity bound\<close>

text \<open>
  C5. \<^verbatim>\<open>addOrUpdateCartItem\<close> (the specification's upsertItem) takes as new quantity the
  existing quantity plus the requested one in increment mode, and the requested quantity in
  set mode; whenever that new quantity exceeds the stock of the product it fails with
  \<^verbatim>\<open>INVALID_QUANTITY\<close> (code 400), the message holding the product's name and the
  available quantity, and store, stock and cart are as before. The product exists, and the
  id the store would give a new cart is not in use.
\<close>

theorem addOrUpdateCartItem_over_stock:
  assumes prod: "product_findUnique pid s = Some product"
    and stock: "p_stockQty product = Some st"
    and fresh: "newCartId env \<notin> ci_cartId ` set (cartItems s)"
    and over: "st < (if isIncrement
                     then (case cartItem_findFirst userId pid s of None \<Rightarrow> 0 | Some i \<Rightarrow> ci_quantity i) + qty
                     else qty)"
  shows "addOrUpdateCartItem env userId pid qty isIncrement s =
           (Inl (Thrown 400 ''INVALID_QUANTITY''
                   (''Product '' @ p_name product @ '' has only '' @ show_int st @ '' available stock!'')), s)"
proof -
  obtain cart s1 where up: "cart_upsert env userId s = (cart, s1)" by (cases "cart_upsert env userId s")
  have s1: "s1 = snd (cart_upsert env userId s)" by (simp add: up)
  have p: "product_findUnique pid s1 = Some product" by (simp add: s1 prod)
  have f: "cartItem_findFirst userId pid s1 = cartItem_findFirst userId pid s"
    unfolding s1 by (rule cartItem_findFirst_upsert[OF fresh])
  have "fst (addOrUpdateCartItem_tx env userId pid qty isIncrement s) =
           Inl (Thrown 400 ''INVALID_QUANTITY''
                   (''Product '' @ p_name product @ '' has only '' @ show_int st @ '' available stock!''))"
    using over by (simp add: addOrUpdateCartItem_tx_def up p f stock newQuantity_of_def Let_def)
  then show ?thesis
    by (cases "addOrUpdateCartItem_tx env userId pid qty isIncrement s")
       (simp add: addOrUpdateCartItem_def db_transaction_def)
qed


text \<open>
  In \<open>example_db\<close> the cart holds two units of \<open>pA\<close>, whose stock is 5: adding five more
  is refused.
\<close>

theorem addOrUpdateCartItem_over_stock_witness:
  "addOrUpdateCartItem example_env ''u1'' ''pA'' 5 True example_db =
     (Inl (Thrown 400 ''INVALID_QUANTITY'' ''Product Kopi has only 5 available stock!''), example_db)"
proof -
  let ?p = "\<lparr>p_id = ''pA'', p_name = ''Kopi'', p_price = Some (Dec 45000), p_stockQty = Some 5\<rparr>"
  have prod: "product_findUnique ''pA'' example_db = Some ?p"
    by (simp add: product_findUnique_def example_db_def)
  have stock: "p_stockQty ?p = Some 5" by simp
  have fresh: "newCartId example_env \<notin> ci_cartId ` set (cartItems example_db)"
    by (simp add: example_env_def example_db_def)
  have over: "5 < (if True
                   then (case cartItem_findFirst ''u1'' ''pA'' example_db of
                           None \<Rightarrow> 0 | Some i \<Rightarrow> ci_quantity i) + 5
                   else 5)"
    by (simp add: cartItem_findFirst_def example_db_def)
  have sh: "show_int 5 = ''5''" by code_simp
  show ?thesis
    unfolding addOrUpdateCartItem_over_stock[OF prod stock fresh over] sh by simp
qed


subsection \<open>Setting the quantity to zero\<close>

text \<open>
  C8. In set mode with quantity 0, \<^verbatim>\<open>addOrUpdateCartItem\<close> deletes the existing cart item
  of the user's cart and the product and returns the removal message; no row of that cart and
  product remains, none is created. When no such item exists it fails with
  \<^verbatim>\<open>CART_ITEM_NOT_FOUND\<close> and the store is as before. The product exists with a stock that
  is not negative, and a user has at most one cart.
\<close>

theorem set_zero_removes_item:
  assumes prod: "product_findUnique pid s = Some product"
    and stock: "0 \<le> available_stock s pid"
    and one_cart: "distinct (map c_userId (carts s))"
    and fresh: "newCartId env \<notin> ci_cartId ` set (cartItems s)"
  shows "addOrUpdateCartItem env userId pid 0 False s =
     (case cartItem_findFirst userId pid s of
        None \<Rightarrow> (Inl (Thrown 404 ''CART_ITEM_NOT_FOUND'' ''Cart item not found!''), s)
      | Some i \<Rightarrow>
          (Inr (Removed (''Successfully removed product '' @ p_name product @ '' from cart!'')),
           s\<lparr>cartItems := filter (\<lambda>j. \<not> (ci_cartId j = ci_cartId i \<and> ci_productId j = pid)) (cartItems s)\<rparr>))"
proof -
  obtain cart s1 where up: "cart_upsert env userId s = (cart, s1)" by (cases "cart_upsert env userId s")
  have s1: "s1 = snd (cart_upsert env userId s)" by (simp add: up)
  have p: "product_findUnique pid s1 = Some product" by (simp add: s1 prod)
  have f: "cartItem_findFirst userId pid s1 = cartItem_findFirst userId pid s"
    unfolding s1 by (rule cartItem_findFirst_upsert[OF fresh])
  have g: "\<not> js_gt 0 (p_stockQty product)"
    using stock by (cases "p_stockQty product") (simp_all add: available_stock_def prod)
  show ?thesis
  proof (cases "cartItem_findFirst userId pid s")
    case None
    have "fst (addOrUpdateCartItem_tx env userId pid 0 False s) =
            Inl (Thrown 404 ''CART_ITEM_NOT_FOUND'' ''Cart item not found!'')"
      using g by (simp add: addOrUpdateCartItem_tx_def up p f None newQuantity_of_def Let_def)
    then show ?thesis
      by (cases "addOrUpdateCartItem_tx env userId pid 0 False s")
         (simp add: addOrUpdateCartItem_def db_transaction_def None)
  next
    case (Some i)
    then have i: "i \<in> set (cartItems s)" "ci_productId i = pid"
      and "\<exists>c \<in> set (carts s). c_id c = ci_cartId i \<and> c_userId c = userId"
      by (auto simp: cartItem_findFirst_def find_Some_iff in_set_conv_nth)
    then obtain c where c: "c \<in> set (carts s)" "c_id c = ci_cartId i" "c_userId c = userId" by blast
    have "cart_findUnique userId s = Some c" by (rule cart_of_user_unique[OF one_cart c(1,3)])
    then have "cart_upsert env userId s = (c, s)" by (simp add: cart_upsert_def)
    with up have cs: "cart = c" "s1 = s" by simp_all
    have d: "cartItem_delete (c_id c) pid s =
        (Inr (), s\<lparr>cartItems := filter (\<lambda>j. \<not> (ci_cartId j = ci_cartId i \<and> ci_productId j = pid)) (cartItems s)\<rparr>)"
      using i c(2) by (auto simp: cartItem_delete_def)
    have "addOrUpdateCartItem_tx env userId pid 0 False s =
      (Inr (Removed (''Successfully removed product '' @ p_name product @ '' from cart!'')),
           s\<lparr>cartItems := filter (\<lambda>j. \<not> (ci_cartId j = ci_cartId i \<and> ci_productId j = pid)) (cartItems s)\<rparr>)"
      using g by (simp add: addOrUpdateCartItem_tx_def up cs prod Some d newQuantity_of_def Let_def)
    then show ?thesis by (simp add: addOrUpdateCartItem_def db_transaction_def Some)
  qed
qed


text \<open>
  In \<open>example_db\<close> user \<open>u1\<close> has an item of \<open>pA\<close>, which is removed; user \<open>u2\<close> has none.
\<close>

theorem set_zero_removes_item_witness:
  "addOrUpdateCartItem example_env ''u1'' ''pA'' 0 False example_db =
     (Inr (Removed ''Successfully removed product Kopi from cart!''), example_db\<lparr>cartItems := []\<rparr>)
   \<and> addOrUpdateCartItem example_env ''u2'' ''pA'' 0 False example_db =
     (Inl (Thrown 404 ''CART_ITEM_NOT_FOUND'' ''Cart item not found!''), example_db)"
proof -
  let ?p = "\<lparr>p_id = ''pA'', p_name = ''Kopi'', p_price = Some (Dec 45000), p_stockQty = Some 5\<rparr>"
  let ?i = "\<lparr>ci_id = ''i1'', ci_quantity = 2, ci_productId = ''pA'', ci_cartId = ''c1''\<rparr>"
  have prod: "product_findUnique ''pA'' example_db = Some ?p"
    by (simp add: product_findUnique_def example_db_def)
  have stock: "0 \<le> available_stock example_db ''pA''"
    by (simp add: available_stock_def prod)
  have one: "distinct (map c_userId (carts example_db))"
    by (simp add: example_db_def)
  have fresh: "newCartId example_env \<notin> ci_cartId ` set (cartItems example_db)"
    by (simp add: example_env_def example_db_def)
  have f1: "cartItem_findFirst ''u1'' ''pA'' example_db = Some ?i"
    by (simp add: cartItem_findFirst_def example_db_def)
  have f2: "cartItem_findFirst ''u2'' ''pA'' example_db = None"
    by (simp add: cartItem_findFirst_def example_db_def)
  have r: "filter (\<lambda>j. \<not> (ci_cartId j = ci_cartId ?i \<and> ci_productId j = ''pA'')) (cartItems example_db) = []"
    by (simp add: example_db_def)
  show ?thesis
    unfolding set_zero_removes_item[OF prod stock one fresh] f1 f2
    using r by simp
qed

section \<open>Invoice numbers\<close>

subsection \<open>Auxiliary facts\<close>

lemma digit_table:
  "\<forall>m \<in> set [0..<10]. ''0123456789'' ! m \<in> set ''0123456789'' \<and> digit_of (''0123456789'' ! m) = m"
  by (simp add: upt_rec digit_of_def)

lemma digit_char_cases:
  "digit_char n \<in> set ''0123456789'' \<and> digit_of (digit_char n) = n mod 10"
proof -
  have "n mod 10 \<in> set [0..<10]" by simp
  with digit_table show ?thesis unfolding digit_char_def by blast
qed

lemma show_nat_digits: "list_all is_digit (show_nat n)"
proof (induction n rule: show_nat.induct)
  case (1 n)
  have d: "is_digit (digit_char n)" using digit_char_cases[of n] by (simp add: is_digit_def)
  show ?case
  proof (cases "n < 10")
    case True
    then show ?thesis using d by (subst show_nat.simps) simp
  next
    case False
    then show ?thesis using d 1 by (subst show_nat.simps) simp
  qed
qed

lemma nat_of_digits_snoc: "nat_of_digits (ds @ [c]) = 10 * nat_of_digits ds + digit_of c"
  by (simp add: nat_of_digits_def)

lemma nat_of_digits_show_nat: "nat_of_digits (show_nat n) = n"
proof (induction n rule: show_nat.induct)
  case (1 n)
  have d: "digit_of (digit_char n) = n mod 10" using digit_char_cases[of n] by simp
  show ?case
  proof (cases "n < 10")
    case True
    then show ?thesis using d by (subst show_nat.simps) (simp add: nat_of_digits_def)
  next
    case False
    then have "nat_of_digits (show_nat n) = 10 * nat_of_digits (show_nat (n div 10)) + digit_of (digit_char n)"
      by (subst show_nat.simps) (simp add: nat_of_digits_snoc)
    then show ?thesis using 1 False d by simp
  qed
qed

lemma length_show_nat: "n < 10 ^ k \<Longrightarrow> 0 < k \<Longrightarrow> length (show_nat n) \<le> k"
proof (induction n arbitrary: k rule: show_nat.induct)
  case (1 n)
  show ?case
  proof (cases "n < 10")
    case True
    then show ?thesis using 1(3) by (subst show_nat.simps) simp
  next
    case False
    obtain j where k: "k = Suc j" using 1(3) by (cases k) auto
    have j: "0 < j" using False 1(2) k by (cases j) auto
    have "n div 10 < 10 ^ j" using 1(2) k by (simp add: less_mult_imp_div_less mult.commute)
    then have "length (show_nat (n div 10)) \<le> j" using 1(1)[OF False _ j] by simp
    then show ?thesis using False k by (subst show_nat.simps) simp
  qed
qed

lemma nat_of_digits_zeros: "nat_of_digits (replicate m CHR ''0'' @ ds) = nat_of_digits ds"
proof -
  have "foldl (\<lambda>a c. 10 * a + digit_of c) 0 (replicate m CHR ''0'') = 0"
    by (induction m) (simp_all add: digit_of_def)
  then show ?thesis by (simp add: nat_of_digits_def)
qed

lemma pad_zeros_props:
  assumes "n < 10 ^ k" "0 < k"
  shows "length (pad_zeros k (show_nat n)) = k"
    and "list_all is_digit (pad_zeros k (show_nat n))"
    and "nat_of_digits (pad_zeros k (show_nat n)) = n"
proof -
  show "length (pad_zeros k (show_nat n)) = k"
    using length_show_nat[OF assms] by (simp add: pad_zeros_def)
  have "is_digit CHR ''0''" by (simp add: is_digit_def)
  then show "list_all is_digit (pad_zeros k (show_nat n))"
    using show_nat_digits[of n] by (auto simp: pad_zeros_def list_all_iff)
  show "nat_of_digits (pad_zeros k (show_nat n)) = n"
    by (simp add: pad_zeros_def nat_of_digits_zeros nat_of_digits_show_nat)
qed

lemma urlAlphabet_safe: "c \<in> set urlAlphabet \<Longrightarrow> url_safe c"
  by (auto simp: urlAlphabet_def url_safe_def alphanumeric_def)

lemma nanoid_props:
  assumes "len \<le> length pool"
  shows "length (nanoid len pool) = len" and "list_all url_safe (nanoid len pool)"
proof -
  show "length (nanoid len pool) = len" using assms by (simp add: nanoid_def)
  have "\<And>b. urlAlphabet ! (b mod 64) \<in> set urlAlphabet"
    by (rule nth_mem) (simp add: urlAlphabet_def)
  then show "list_all url_safe (nanoid len pool)"
    by (auto simp: nanoid_def list_all_iff intro: urlAlphabet_safe)
qed


subsection \<open>The format\<close>

text \<open>
  C9, as the claim states it: every invoice number is \<^verbatim>\<open>INV-<YYYYMMDD>-<suffix>\<close> with a suffix
  of six letters or digits. The suffix comes from \<^verbatim>\<open>nanoid(6)\<close>, whose alphabet also has the
  underscore and the hyphen: with the random bytes 44, 7, 0, 1, 2, 3 the suffix starts with
  an underscore.
\<close>

theorem invoice_suffix_not_alphanumeric:
  "drop 13 (generateInvoiceNumber \<lparr>year = 2024, month = 12, day = 13\<rparr> [44, 7, 0, 1, 2, 3]) = ''_musea''
   \<and> \<not> list_all alphanumeric
          (drop 13 (generateInvoiceNumber \<lparr>year = 2024, month = 12, day = 13\<rparr> [44, 7, 0, 1, 2, 3]))"
  by code_simp

text \<open>
  C9, amended: on a calendar date whose year has at most four digits, the invoice number is
  \<^verbatim>\<open>INV-\<close>, eight digits that read as the year, month and day of the generation date, a
  hyphen, and exactly six characters, each a letter, a digit, an underscore or a hyphen.
\<close>

theorem generateInvoiceNumber_format:
  assumes y: "year d \<le> 9999"
    and m: "1 \<le> month d \<and> month d \<le> 12"
    and dd: "1 \<le> day d \<and> day d \<le> 31"
    and pool: "6 \<le> length pool"
  shows "\<exists>ymd suffix.
           generateInvoiceNumber d pool = ''INV-'' @ ymd @ ''-'' @ suffix
         \<and> length ymd = 8 \<and> list_all is_digit ymd
         \<and> nat_of_digits (take 4 ymd) = year d
         \<and> nat_of_digits (take 2 (drop 4 ymd)) = month d
         \<and> nat_of_digits (drop 6 ymd) = day d
         \<and> length suffix = 6 \<and> list_all url_safe suffix"
proof -
  have ly: "year d < 10 ^ 4" and lm: "month d < 10 ^ 2" and ld: "day d < 10 ^ 2"
    using y m dd by simp_all
  note py = pad_zeros_props[OF ly] and pm = pad_zeros_props[OF lm] and pd = pad_zeros_props[OF ld]
  let ?ymd = "format_yyyyMMdd d"
  have "length ?ymd = 8" "list_all is_digit ?ymd"
    "nat_of_digits (take 4 ?ymd) = year d"
    "nat_of_digits (take 2 (drop 4 ?ymd)) = month d"
    "nat_of_digits (drop 6 ?ymd) = day d"
    using py pm pd by (simp_all add: format_yyyyMMdd_def)
  moreover have "length (nanoid 6 pool) = 6" "list_all url_safe (nanoid 6 pool)"
    using nanoid_props[OF pool] by simp_all
  moreover have "generateInvoiceNumber d pool = ''INV-'' @ ?ymd @ ''-'' @ nanoid 6 pool"
    by (simp add: generateInvoiceNumber_def)
  ultimately show ?thesis by blast
qed


theorem generateInvoiceNumber_format_witness:
  "generateInvoiceNumber \<lparr>year = 2024, month = 12, day = 13\<rparr> [44, 7, 0, 1, 2, 3] = ''INV-20241213-_musea''"
proof -
  have v: "generateInvoiceNumber \<lparr>year = 2024, month = 12, day = 13\<rparr> [44, 7, 0, 1, 2, 3]
             = ''INV-20241213-_musea''"
    by code_simp
  from generateInvoiceNumber_format[of "\<lparr>year = 2024, month = 12, day = 13\<rparr>" "[44, 7, 0, 1, 2, 3]"]
  have "\<exists>ymd suffix. generateInvoiceNumber \<lparr>year = 2024, month = 12, day = 13\<rparr> [44, 7, 0, 1, 2, 3]
           = ''INV-'' @ ymd @ ''-'' @ suffix \<and> length ymd = 8 \<and> length suffix = 6"
    by auto
  with v show ?thesis by simp
qed


section \<open>Totals\<close>

subsection \<open>Integers that binary64 holds exactly\<close>

lemma round_half_even_of_int [simp]: "round_half_even (of_int z) = z"
  by (simp add: round_half_even_def)

lemma ilog2_of_int_le:
  assumes "0 < m" and "m < 2 ^ 53"
  shows "ilog2 (of_int m) \<le> 52"
proof -
  have "bitlen m \<le> 53" using assms by (simp add: bitlen_le_iff_power)
  moreover have "bitlen 1 = 1" by (simp add: bitlen_alt_def)
  ultimately show ?thesis by (simp add: ilog2_def Let_def)
qed

lemma round64_of_int:
  assumes "\<bar>n\<bar> < 2 ^ 53"
  shows "round64 (of_int n) = Num (of_int n)"
proof (cases "n = 0")
  case True
  then show ?thesis by (simp add: round64_def)
next
  case False
  let ?x = "of_int n :: rat"
  have ax: "\<bar>?x\<bar> = of_int \<bar>n\<bar>" by simp
  have pos: "0 < \<bar>n\<bar>" using False by simp
  have il: "ilog2 \<bar>?x\<bar> \<le> 52" unfolding ax by (rule ilog2_of_int_le[OF pos assms])
  define e where "e = max (- 1074) (ilog2 \<bar>?x\<bar> - 52)"
  have e: "e \<le> 0" using il by (simp add: e_def)
  define k where "k = nat (- e)"
  have p: "pow2 e = 1 / 2 ^ k" using e by (cases "e = 0") (simp_all add: pow2_def k_def)
  have q: "?x / pow2 e = of_int (n * 2 ^ k)" by (simp add: p)
  have y: "of_int (round_half_even (?x / pow2 e)) * pow2 e = ?x"
    unfolding q round_half_even_of_int by (simp add: p)
  have "\<not> 1024 \<le> ilog2 \<bar>?x\<bar>" using il by simp
  then show ?thesis
    using False by (simp add: round64_def Let_def e_def[symmetric] y)
qed

lemma add_mul_exact:
  assumes c: "\<bar>c\<bar> < 2 ^ 53" and b: "\<bar>a\<bar> + \<bar>q * c\<bar> < 2 ^ 53"
  shows "js_add (Num (of_int a)) (js_mul (Number_int q) (round64 (of_int c))) = Num (of_int (a + q * c))"
proof -
  have 1: "\<bar>q * c\<bar> < 2 ^ 53" using b by linarith
  have 2: "\<bar>a + q * c\<bar> < 2 ^ 53" using b by linarith
  have "js_mul (Number_int q) (round64 (of_int c)) = round64 (of_int (q * c))"
    by (simp add: round64_of_int[OF c] Number_int_def)
  also have "\<dots> = Num (of_int (q * c))" by (rule round64_of_int[OF 1])
  finally have m: "js_mul (Number_int q) (round64 (of_int c)) = Num (of_int (q * c))" .
  have "js_add (Num (of_int a)) (Num (of_int (q * c))) = round64 (of_int (a + q * c))"
    by simp
  also have "\<dots> = Num (of_int (a + q * c))" by (rule round64_of_int[OF 2])
  finally show ?thesis by (simp add: m)
qed

lemma foldl_total_exact:
  assumes "\<forall>item \<in> set items. \<exists>p c. find (\<lambda>p. id_of p = productId item) prods = Some p
                \<and> price_of p = Some (Dec (of_int c)) \<and> \<bar>c\<bar> < 2 ^ 53"
    and "of_int \<bar>a\<bar> + (\<Sum>item\<leftarrow>items. \<bar>of_int (quantity item) * unit_price prods (productId item)\<bar>) < 2 ^ 53"
  shows "foldl (\<lambda>acc item.
              let product = find (\<lambda>p. id_of p = productId item) prods
              in js_add acc (js_mul (Number_int (quantity item)) (price_or_zero product)))
           (Num (of_int a)) items = Num (of_int a + exact_total items prods)"
  using assms
proof (induction items arbitrary: a)
  case Nil
  show ?case by (simp add: exact_total_def)
next
  case (Cons item items)
  let ?rest = "\<Sum>item\<leftarrow>items. \<bar>of_int (quantity item) * unit_price prods (productId item)\<bar>"
  from Cons.prems(1) obtain p c where p: "find (\<lambda>p. id_of p = productId item) prods = Some p"
    and pc: "price_of p = Some (Dec (of_int c))" and c: "\<bar>c\<bar> < 2 ^ 53" by auto
  have u: "unit_price prods (productId item) = of_int c" by (simp add: unit_price_def p pc)
  have r0: "0 \<le> ?rest" by (rule sum_list_nonneg) auto
  have "(of_int \<bar>a\<bar> :: rat) + of_int \<bar>quantity item * c\<bar> + ?rest < 2 ^ 53"
    using Cons.prems(2) by (simp add: u abs_mult)
  then have b': "(of_int (\<bar>a\<bar> + \<bar>quantity item * c\<bar>) :: rat) + ?rest < 2 ^ 53" by simp
  then have "(of_int (\<bar>a\<bar> + \<bar>quantity item * c\<bar>) :: rat) < of_int (2 ^ 53)" using r0 by simp
  then have b: "\<bar>a\<bar> + \<bar>quantity item * c\<bar> < 2 ^ 53" by (simp only: of_int_less_iff)
  have step: "js_add (Num (of_int a)) (js_mul (Number_int (quantity item)) (price_or_zero (Some p)))
                = Num (of_int (a + quantity item * c))"
    using add_mul_exact[OF c b] by (simp add: price_or_zero_def pc)
  have "(of_int \<bar>a + quantity item * c\<bar> :: rat) \<le> of_int (\<bar>a\<bar> + \<bar>quantity item * c\<bar>)"
    by (metis abs_triangle_ineq of_int_le_iff)
  then have b2: "(of_int \<bar>a + quantity item * c\<bar> :: rat) + ?rest < 2 ^ 53" using b' by linarith
  have all: "\<forall>item \<in> set items. \<exists>p c. find (\<lambda>p. id_of p = productId item) prods = Some p
                \<and> price_of p = Some (Dec (of_int c)) \<and> \<bar>c\<bar> < 2 ^ 53"
    using Cons.prems(1) by simp
  show ?case
    using Cons.IH[OF all b2] by (simp add: p step exact_total_def u)
qed

lemma getCart_total_exact:
  assumes "\<forall>(item, product) \<in> set joined. \<exists>c. p_price product = Some (Dec (of_int c)) \<and> \<bar>c\<bar> < 2 ^ 53"
    and "of_int \<bar>a\<bar> + (\<Sum>(item, product)\<leftarrow>joined. \<bar>of_int (ci_quantity item) * price_value (p_price product)\<bar>) < 2 ^ 53"
  shows "getCart_total (Num (of_int a)) joined = Inr (Num (of_int a + exact_cart_total joined))"
  using assms
proof (induction joined arbitrary: a)
  case Nil
  show ?case by (simp add: exact_cart_total_def)
next
  case (Cons ip joined)
  obtain item product where ip: "ip = (item, product)" by (cases ip)
  let ?rest = "\<Sum>(item, product)\<leftarrow>joined. \<bar>of_int (ci_quantity item) * price_value (p_price product)\<bar>"
  from Cons.prems(1) obtain c where pc: "p_price product = Some (Dec (of_int c))" and c: "\<bar>c\<bar> < 2 ^ 53"
    by (auto simp: ip)
  have r0: "0 \<le> ?rest" by (rule sum_list_nonneg) auto
  have "(of_int \<bar>a\<bar> :: rat) + of_int \<bar>ci_quantity item * c\<bar> + ?rest < 2 ^ 53"
    using Cons.prems(2) by (simp add: ip pc abs_mult)
  then have b': "(of_int (\<bar>a\<bar> + \<bar>ci_quantity item * c\<bar>) :: rat) + ?rest < 2 ^ 53" by simp
  then have "(of_int (\<bar>a\<bar> + \<bar>ci_quantity item * c\<bar>) :: rat) < of_int (2 ^ 53)" using r0 by simp
  then have b: "\<bar>a\<bar> + \<bar>ci_quantity item * c\<bar> < 2 ^ 53" by (simp only: of_int_less_iff)
  have n: "\<not> isNaN (round64 (of_int c))" by (simp add: round64_of_int[OF c])
  have step: "js_add (Num (of_int a)) (js_mul (Number_int (ci_quantity item)) (round64 (of_int c)))
                = Num (of_int (a + ci_quantity item * c))"
    by (rule add_mul_exact[OF c b])
  have "(of_int \<bar>a + ci_quantity item * c\<bar> :: rat) \<le> of_int (\<bar>a\<bar> + \<bar>ci_quantity item * c\<bar>)"
    by (metis abs_triangle_ineq of_int_le_iff)
  then have b2: "(of_int \<bar>a + ci_quantity item * c\<bar> :: rat) + ?rest < 2 ^ 53" using b' by linarith
  have all: "\<forall>(item, product) \<in> set joined. \<exists>c. p_price product = Some (Dec (of_int c)) \<and> \<bar>c\<bar> < 2 ^ 53"
    using Cons.prems(1) by simp
  show ?case
    using Cons.IH[OF all b2] n by (simp add: ip pc step exact_cart_total_def)
qed


subsection \<open>Prices that are absent or not numbers\<close>

lemma getCart_total_NaN:
  "\<exists>(item, product) \<in> set joined. p_price product = Some DecNaN \<Longrightarrow>
   getCart_total acc joined = Inl (Error ''Invalid product price'')"
proof (induction joined arbitrary: acc)
  case Nil
  then show ?case by simp
next
  case (Cons ip joined)
  obtain item product where ip: "ip = (item, product)" by (cases ip)
  show ?case
  proof (cases "isNaN (Number_price (p_price product))")
    case True
    then show ?thesis by (simp add: ip)
  next
    case False
    then have "p_price product \<noteq> Some DecNaN" by auto
    with Cons.prems have "\<exists>(item, product) \<in> set joined. p_price product = Some DecNaN"
      by (auto simp: ip)
    from Cons.IH[OF this] False show ?thesis by (simp add: ip Let_def)
  qed
qed

lemma getCart_invalid_price:
  assumes cart: "cart_findUnique userId s = Some cart"
    and ex: "\<forall>i \<in> set (cartItem_findMany (c_id cart) s). product_findUnique (ci_productId i) s \<noteq> None"
    and nan: "\<exists>i \<in> set (cartItem_findMany (c_id cart) s). \<exists>p.
                 product_findUnique (ci_productId i) s = Some p \<and> p_price p = Some DecNaN"
  shows "fst (getCart env userId s) = Inl (Error ''Invalid product price'')"
proof -
  let ?joined = "map (\<lambda>i. (i, the (product_findUnique (ci_productId i) s))) (cartItem_findMany (c_id cart) s)"
  have up: "cart_upsert env userId s = (cart, s)" by (simp add: cart_upsert_def cart)
  have "\<exists>(item, product) \<in> set ?joined. p_price product = Some DecNaN"
    using nan by force
  then have "\<exists>(item, product) \<in> set (sort_key (\<lambda>(i, p). p_name p) ?joined). p_price product = Some DecNaN"
    by simp
  then have "getCart_total (Num 0) (sort_key (\<lambda>(i, p). p_name p) ?joined) = Inl (Error ''Invalid product price'')"
    by (rule getCart_total_NaN)
  then show ?thesis
    by (simp add: getCart_def db_transaction_def up include_product_Inr[OF ex])
qed

lemma calculateTotalPrice_snoc:
  "calculateTotalPrice (items @ [item]) prods =
     js_add (calculateTotalPrice items prods)
            (js_mul (Number_int (quantity item)) (price_or_zero (find (\<lambda>p. id_of p = productId item) prods)))"
  by (simp add: calculateTotalPrice_def)

lemma round64_0 [simp]: "round64 0 = Num 0"
  by (simp add: round64_def)


text \<open>
  C6, as the claim states it: a cart item whose price is absent or not a number makes the
  computation of the total fail, for the total of \<^verbatim>\<open>getCart\<close> and for the total of checkout;
  it never counts as price 0. In the code \<^verbatim>\<open>calculateTotalPrice\<close> reads
  \<^verbatim>\<open>Number(product?.price || 0)\<close>, and in \<^verbatim>\<open>getCart\<close> \<^verbatim>\<open>Number(null)\<close> is 0: a product without
  price totals to 0 on both paths and nothing fails.
\<close>

theorem absent_price_counts_as_zero:
  "calculateTotalPrice [\<lparr>productId = ''pA'', quantity = 2\<rparr>] [\<lparr>id_of = ''pA'', price_of = None\<rparr>] = Num 0
   \<and> map_sum id snd (fst (getCart example_env ''u1'' unpriced_db)) = Inr (Num 0)"
  by code_simp

text \<open>
  C6, amended: the total of \<^verbatim>\<open>getCart\<close> fails with the error \<^verbatim>\<open>Invalid product price\<close> when
  the price of some cart item's product converts to NaN. \<^verbatim>\<open>calculateTotalPrice\<close>, the total
  of checkout, raises no error (its result is a number): a cart item whose product is not in
  the product list, or has no price, adds 0 to the total.
\<close>

theorem pricing_policy:
  "(cart_findUnique userId s = Some cart
      \<and> (\<forall>i \<in> set (cartItem_findMany (c_id cart) s). product_findUnique (ci_productId i) s \<noteq> None)
      \<and> (\<exists>i \<in> set (cartItem_findMany (c_id cart) s). \<exists>p.
                 product_findUnique (ci_productId i) s = Some p \<and> p_price p = Some DecNaN)
    \<longrightarrow> fst (getCart env userId s) = Inl (Error ''Invalid product price''))
   \<and> (find (\<lambda>p. id_of p = productId item) prods = None
        \<or> (\<exists>p. find (\<lambda>p. id_of p = productId item) prods = Some p \<and> price_of p = None)
    \<longrightarrow> calculateTotalPrice (items @ [item]) prods = js_add (calculateTotalPrice items prods) (Num 0))"
proof (intro conjI impI)
  assume "cart_findUnique userId s = Some cart
      \<and> (\<forall>i \<in> set (cartItem_findMany (c_id cart) s). product_findUnique (ci_productId i) s \<noteq> None)
      \<and> (\<exists>i \<in> set (cartItem_findMany (c_id cart) s). \<exists>p.
                 product_findUnique (ci_productId i) s = Some p \<and> p_price p = Some DecNaN)"
  then show "fst (getCart env userId s) = Inl (Error ''Invalid product price'')"
    using getCart_invalid_price by blast
next
  assume "find (\<lambda>p. id_of p = productId item) prods = None
        \<or> (\<exists>p. find (\<lambda>p. id_of p = productId item) prods = Some p \<and> price_of p = None)"
  then have "price_or_zero (find (\<lambda>p. id_of p = productId item) prods) = Num 0"
    by (auto simp: price_or_zero_def)
  then show "calculateTotalPrice (items @ [item]) prods = js_add (calculateTotalPrice items prods) (Num 0)"
    by (simp add: calculateTotalPrice_snoc Number_int_def)
qed


text \<open>
  In \<open>nan_db\<close> the price of the product in the cart is NaN; appending an item of the unknown
  product \<open>pZ\<close> to the example leaves its total at 120000.
\<close>

theorem pricing_policy_witness:
  "fst (getCart example_env ''u1'' nan_db) = Inl (Error ''Invalid product price'')
   \<and> calculateTotalPrice (example_lines @ [\<lparr>productId = ''pZ'', quantity = 4\<rparr>]) example_prices = Num 120000"
proof -
  let ?cart = "\<lparr>c_id = ''c1'', c_userId = ''u1''\<rparr>"
  have cart: "cart_findUnique ''u1'' nan_db = Some ?cart"
    by (simp add: cart_findUnique_def nan_db_def example_db_def)
  have items: "cartItem_findMany (c_id ?cart) nan_db = cartItems nan_db"
    by (simp add: cartItem_findMany_def nan_db_def example_db_def)
  have ex: "\<forall>i \<in> set (cartItem_findMany (c_id ?cart) nan_db). product_findUnique (ci_productId i) nan_db \<noteq> None"
    unfolding items by (simp add: nan_db_def example_db_def product_findUnique_def)
  have nan: "\<exists>i \<in> set (cartItem_findMany (c_id ?cart) nan_db). \<exists>p.
                 product_findUnique (ci_productId i) nan_db = Some p \<and> p_price p = Some DecNaN"
    unfolding items by (simp add: nan_db_def example_db_def product_findUnique_def)
  have missing: "find (\<lambda>p. id_of p = productId \<lparr>productId = ''pZ'', quantity = 4\<rparr>) example_prices = None"
    by (simp add: example_prices_def)
  have t: "js_add (calculateTotalPrice example_lines example_prices) (Num 0) = Num 120000"
    by code_simp
  from pricing_policy[of "''u1''" nan_db ?cart example_env "\<lparr>productId = ''pZ'', quantity = 4\<rparr>"
                         example_prices example_lines]
    cart ex nan missing t
  show ?thesis by simp
qed


subsection \<open>Exactness\<close>

text \<open>
  C7, as the claim states it: the total is the exact decimal sum of quantity times price,
  computed in a decimal or scaled-integer representation. The code converts each price with
  \<^verbatim>\<open>Number\<close> and multiplies and adds JavaScript numbers: three units at 1.10 total to
  3.3000000000000003, not to 3.3.
\<close>

theorem total_not_exact_on_cents:
  "exact_total cents_lines cents_prices = 33 / 10
   \<and> calculateTotalPrice cents_lines cents_prices = Num (7430939385161319 / 2251799813685248)
   \<and> calculateTotalPrice cents_lines cents_prices \<noteq> Num (exact_total cents_lines cents_prices)"
  by code_simp

text \<open>
  C7, amended: the total is computed in binary64 arithmetic. When every price is an integer
  below \<open>2\<^sup>5\<^sup>3\<close> in magnitude and the magnitudes of quantity times price sum to less than
  \<open>2\<^sup>5\<^sup>3\<close>, the total equals the exact sum, for \<^verbatim>\<open>calculateTotalPrice\<close> and for the total of
  \<^verbatim>\<open>getCart\<close>; in particular the items (45000, 2) and (30000, 1) total to 120000.
\<close>

theorem total_exact_on_safe_integers:
  "((\<forall>item \<in> set items. \<exists>p c. find (\<lambda>p. id_of p = productId item) prods = Some p
                \<and> price_of p = Some (Dec (of_int c)) \<and> \<bar>c\<bar> < 2 ^ 53)
    \<and> (\<Sum>item\<leftarrow>items. \<bar>of_int (quantity item) * unit_price prods (productId item)\<bar>) < 2 ^ 53
    \<longrightarrow> calculateTotalPrice items prods = Num (exact_total items prods))
   \<and> ((\<forall>(item, product) \<in> set joined. \<exists>c. p_price product = Some (Dec (of_int c)) \<and> \<bar>c\<bar> < 2 ^ 53)
    \<and> (\<Sum>(item, product)\<leftarrow>joined. \<bar>of_int (ci_quantity item) * price_value (p_price product)\<bar>) < 2 ^ 53
    \<longrightarrow> getCart_total (Num 0) joined = Inr (Num (exact_cart_total joined)))"
proof (intro conjI impI)
  assume h: "(\<forall>item \<in> set items. \<exists>p c. find (\<lambda>p. id_of p = productId item) prods = Some p
                \<and> price_of p = Some (Dec (of_int c)) \<and> \<bar>c\<bar> < 2 ^ 53)
    \<and> (\<Sum>item\<leftarrow>items. \<bar>of_int (quantity item) * unit_price prods (productId item)\<bar>) < 2 ^ 53"
  then have b: "of_int \<bar>0\<bar> + (\<Sum>item\<leftarrow>items. \<bar>of_int (quantity item) * unit_price prods (productId item)\<bar>) < 2 ^ 53"
    by simp
  from foldl_total_exact[OF conjunct1[OF h] b]
  show "calculateTotalPrice items prods = Num (exact_total items prods)"
    by (simp add: calculateTotalPrice_def)
next
  assume h: "(\<forall>(item, product) \<in> set joined. \<exists>c. p_price product = Some (Dec (of_int c)) \<and> \<bar>c\<bar> < 2 ^ 53)
    \<and> (\<Sum>(item, product)\<leftarrow>joined. \<bar>of_int (ci_quantity item) * price_value (p_price product)\<bar>) < 2 ^ 53"
  then have b: "of_int \<bar>0\<bar> + (\<Sum>(item, product)\<leftarrow>joined. \<bar>of_int (ci_quantity item) * price_value (p_price product)\<bar>) < 2 ^ 53"
    by simp
  from getCart_total_exact[OF conjunct1[OF h] b]
  show "getCart_total (Num 0) joined = Inr (Num (exact_cart_total joined))"
    by simp
qed


theorem total_exact_on_safe_integers_witness:
  "calculateTotalPrice example_lines example_prices = Num 120000
   \<and> getCart_total (Num 0) example_joined = Inr (Num 120000)"
proof -
  have a: "\<exists>p c. find (\<lambda>p. id_of p = ''pA'') example_prices = Some p
                \<and> price_of p = Some (Dec (of_int c)) \<and> \<bar>c\<bar> < 2 ^ 53"
    by (rule exI[of _ "\<lparr>id_of = ''pA'', price_of = Some (Dec 45000)\<rparr>"], rule exI[of _ 45000])
       (simp add: example_prices_def)
  have b: "\<exists>p c. find (\<lambda>p. id_of p = ''pB'') example_prices = Some p
                \<and> price_of p = Some (Dec (of_int c)) \<and> \<bar>c\<bar> < 2 ^ 53"
    by (rule exI[of _ "\<lparr>id_of = ''pB'', price_of = Some (Dec 30000)\<rparr>"], rule exI[of _ 30000])
       (simp add: example_prices_def)
  have h1: "\<forall>item \<in> set example_lines. \<exists>p c. find (\<lambda>p. id_of p = productId item) example_prices = Some p
                \<and> price_of p = Some (Dec (of_int c)) \<and> \<bar>c\<bar> < 2 ^ 53"
    using a b by (simp add: example_lines_def)
  have h2: "(\<Sum>item\<leftarrow>example_lines. \<bar>of_int (quantity item) * unit_price example_prices (productId item)\<bar>) < 2 ^ 53"
    by (simp add: example_lines_def example_prices_def unit_price_def)
  have e1: "exact_total example_lines example_prices = 120000"
    by (simp add: exact_total_def example_lines_def example_prices_def unit_price_def)
  have c: "\<exists>c. Some (Dec 45000) = Some (Dec (of_int c)) \<and> \<bar>c\<bar> < 2 ^ 53"
    by (rule exI[of _ 45000]) simp
  have d: "\<exists>c. Some (Dec 30000) = Some (Dec (of_int c)) \<and> \<bar>c\<bar> < 2 ^ 53"
    by (rule exI[of _ 30000]) simp
  have h3: "\<forall>(item, product) \<in> set example_joined. \<exists>c. p_price product = Some (Dec (of_int c)) \<and> \<bar>c\<bar> < 2 ^ 53"
    using c d by (simp add: example_joined_def)
  have h4: "(\<Sum>(item, product)\<leftarrow>example_joined. \<bar>of_int (ci_quantity item) * price_value (p_price product)\<bar>) < 2 ^ 53"
    by (simp add: example_joined_def)
  have e2: "exact_cart_total example_joined = 120000"
    by (simp add: exact_cart_total_def example_joined_def)
  from total_exact_on_safe_integers[of example_lines example_prices example_joined] h1 h2 h3 h4
  show ?thesis by (simp add: e1 e2)
qed


section \<open>A successful checkout\<close>

subsection \<open>The decrements of the stock\<close>

lemma map_of_bump:
  "map_of (map (\<lambda>(k, v). if k = pid then (k, v + q) else (k, v)) acc) k =
     (if k = pid then map_option (\<lambda>v. v + q) (map_of acc k) else map_of acc k)"
  by (induction acc) auto

lemma map_fst_bump:
  "map fst (map (\<lambda>(k, v). if k = pid then (k, v + q) else (k, v)) acc) = map fst acc"
  by (induction acc) auto

lemma map_of_key_iff: "map_of acc pid \<noteq> None \<longleftrightarrow> pid \<in> set (map fst acc)"
  by (simp add: map_of_eq_None_iff)

lemma add_decrement_map_of:
  "map_of (add_decrement acc item) k =
     (if k = productId item
      then Some ((case map_of acc k of None \<Rightarrow> 0 | Some v \<Rightarrow> v) + quantity item)
      else map_of acc k)"
proof (cases "map_of acc (productId item)")
  case None
  then show ?thesis by (simp add: add_decrement_def map_add_def split: option.splits)
next
  case (Some v)
  then show ?thesis by (simp add: add_decrement_def map_of_bump)
qed

lemma add_decrement_keys:
  "map fst (add_decrement acc item) =
     (if productId item \<in> set (map fst acc) then map fst acc else map fst acc @ [productId item])"
proof (cases "map_of acc (productId item)")
  case None
  then have "productId item \<notin> set (map fst acc)" using map_of_key_iff[of acc "productId item"] by simp
  then show ?thesis using None by (simp add: add_decrement_def)
next
  case (Some v)
  then have "productId item \<in> set (map fst acc)" using map_of_key_iff[of acc "productId item"] by simp
  then show ?thesis using Some by (auto simp: add_decrement_def split: prod.splits)
qed

lemma foldl_add_decrement_keys:
  "distinct (map fst acc) \<Longrightarrow>
   distinct (map fst (foldl add_decrement acc lines))
   \<and> set (map fst (foldl add_decrement acc lines)) = set (map fst acc) \<union> productId ` set lines"
proof (induction lines arbitrary: acc)
  case Nil
  then show ?case by simp
next
  case (Cons l lines)
  have d: "distinct (map fst (add_decrement acc l))" using Cons.prems by (simp add: add_decrement_keys)
  have k: "set (map fst (add_decrement acc l)) = insert (productId l) (set (map fst acc))"
    by (auto simp: add_decrement_keys)
  from Cons.IH[OF d] show ?case unfolding foldl_Cons k by auto
qed

lemma foldl_add_decrement_map_of:
  "map_of (foldl add_decrement acc lines) pid =
     (if pid \<in> set (map fst acc) \<union> productId ` set lines
      then Some ((case map_of acc pid of None \<Rightarrow> 0 | Some v \<Rightarrow> v)
                 + (\<Sum>l\<leftarrow>filter (\<lambda>l. productId l = pid) lines. quantity l))
      else None)"
proof (induction lines arbitrary: acc)
  case Nil
  show ?case
  proof (cases "map_of acc pid")
    case None
    then show ?thesis using map_of_key_iff[of acc pid] by simp
  next
    case (Some v)
    then show ?thesis using map_of_key_iff[of acc pid] by simp
  qed
next
  case (Cons l lines)
  have k: "set (map fst (add_decrement acc l)) = insert (productId l) (set (map fst acc))"
    by (auto simp: add_decrement_keys)
  show ?case
  proof (cases "pid = productId l")
    case True
    then show ?thesis
      unfolding foldl_Cons Cons.IH k by (simp add: add_decrement_map_of)
  next
    case False
    then show ?thesis
      unfolding foldl_Cons Cons.IH k by (auto simp: add_decrement_map_of)
  qed
qed

lemma find_map_option: "find P (map f xs) = map_option f (find (\<lambda>x. P (f x)) xs)"
  by (induction xs) auto

lemma stockUpdates_ok:
  assumes "distinct (map fst al)"
    and "\<forall>pid \<in> set (map fst al). \<exists>p \<in> set (products s). p_id p = pid"
  shows "stockUpdates al s =
     (Inr (), s\<lparr>products := map (\<lambda>p. case map_of al (p_id p) of
                                         None \<Rightarrow> p
                                       | Some n \<Rightarrow> p\<lparr>p_stockQty := map_option (\<lambda>v. v - n) (p_stockQty p)\<rparr>)
                                  (products s)\<rparr>)"
  using assms
proof (induction al arbitrary: s)
  case Nil
  show ?case by simp
next
  case (Cons a al)
  obtain pid n where a: "a = (pid, n)" by (cases a)
  let ?g = "\<lambda>p. if p_id p = pid then p\<lparr>p_stockQty := map_option (\<lambda>v. v - n) (p_stockQty p)\<rparr> else p"
  let ?s1 = "s\<lparr>products := map ?g (products s)\<rparr>"
  have here: "\<exists>p \<in> set (products s). p_id p = pid" using Cons.prems(2) by (simp add: a)
  then have u: "product_update_decrement pid n s = (Inr (), ?s1)"
    by (simp add: product_update_decrement_def)
  have d: "distinct (map fst al)" and notin: "pid \<notin> set (map fst al)"
    using Cons.prems(1) by (simp_all add: a)
  have none: "map_of al pid = None" using notin by (simp add: map_of_eq_None_iff)
  have ids: "\<forall>k \<in> set (map fst al). \<exists>p \<in> set (products ?s1). p_id p = k"
  proof
    fix k assume "k \<in> set (map fst al)"
    then obtain p where "p \<in> set (products s)" "p_id p = k" using Cons.prems(2) by auto
    then have "?g p \<in> set (products ?s1)" "p_id (?g p) = k" by auto
    then show "\<exists>p \<in> set (products ?s1). p_id p = k" by blast
  qed
  have comp: "\<And>p. (case map_of al (p_id (?g p)) of
                       None \<Rightarrow> ?g p
                     | Some m \<Rightarrow> (?g p)\<lparr>p_stockQty := map_option (\<lambda>v. v - m) (p_stockQty (?g p))\<rparr>)
             = (case map_of (a # al) (p_id p) of
                       None \<Rightarrow> p
                     | Some m \<Rightarrow> p\<lparr>p_stockQty := map_option (\<lambda>v. v - m) (p_stockQty p)\<rparr>)"
    by (simp add: a none)
  show ?case
    unfolding a stockUpdates.simps u
    by (simp add: Cons.IH[OF d ids] comp[unfolded a] comp_def)
qed

lemma calculateTotalPrice_cart:
  "calculateTotalPrice (map line_of items) (map priced_of (product_findMany (map ci_productId items) s))
     = cart_total s items"
proof -
  let ?found = "product_findMany (map ci_productId items) s"
  have step: "\<And>i. i \<in> set items \<Longrightarrow>
      price_or_zero (find (\<lambda>p. id_of p = productId (line_of i)) (map priced_of ?found))
        = Number_price (product_price s (ci_productId i))"
  proof -
    fix i assume "i \<in> set items"
    then have "find (\<lambda>p. p_id p = ci_productId i) ?found = product_findUnique (ci_productId i) s"
      by (intro find_findMany) simp
    then have "find (\<lambda>p. id_of p = productId (line_of i)) (map priced_of ?found)
        = map_option priced_of (product_findUnique (ci_productId i) s)"
      by (simp add: find_map_option priced_of_def line_of_def)
    then show "price_or_zero (find (\<lambda>p. id_of p = productId (line_of i)) (map priced_of ?found))
        = Number_price (product_price s (ci_productId i))"
      by (simp add: price_or_zero_def product_price_def priced_of_def split: option.splits)
  qed
  have gen: "\<And>acc. set xs \<subseteq> set items \<Longrightarrow>
      foldl (\<lambda>acc item.
              let product = find (\<lambda>p. id_of p = productId item) (map priced_of ?found)
              in js_add acc (js_mul (Number_int (quantity item)) (price_or_zero product)))
           acc (map line_of xs)
      = foldl (\<lambda>acc i. js_add acc (js_mul (Number_int (ci_quantity i))
                                        (Number_price (product_price s (ci_productId i)))))
           acc xs" for xs
  proof (induction xs)
    case Nil
    show ?case by simp
  next
    case (Cons x xs)
    then have x: "x \<in> set items" and xs: "set xs \<subseteq> set items" by auto
    show ?case
      using Cons.IH[OF xs] step[OF x] by (simp add: Let_def line_of_def)
  qed
  show ?thesis
    unfolding calculateTotalPrice_def cart_total_def by (rule gen) simp
qed

lemma decrement_products:
  assumes ex: "\<forall>i \<in> set items. product_findUnique (ci_productId i) s \<noteq> None"
    and same: "products s2 = products s"
  shows "stockUpdates (decrementStock (map line_of items)) s2 =
     (Inr (), s2\<lparr>products := map (\<lambda>p. p\<lparr>p_stockQty := map_option (\<lambda>v. v - cart_quantity items (p_id p))
                                                                     (p_stockQty p)\<rparr>) (products s)\<rparr>)"
proof -
  let ?al = "decrementStock (map line_of items)"
  have k: "distinct (map fst ?al)" "set (map fst ?al) = ci_productId ` set items"
    using foldl_add_decrement_keys[of "[]" "map line_of items"]
    by (auto simp: decrementStock_def line_of_def image_iff)
  have m: "\<And>pid. map_of ?al pid =
      (if pid \<in> ci_productId ` set items then Some (cart_quantity items pid) else None)"
  proof -
    fix pid
    have "(\<Sum>l\<leftarrow>filter (\<lambda>l. productId l = pid) (map line_of items). quantity l) = cart_quantity items pid"
      by (simp add: cart_quantity_def filter_map comp_def line_of_def)
    moreover have "productId ` set (map line_of items) = ci_productId ` set items"
      by (auto simp: line_of_def image_iff)
    ultimately show "map_of ?al pid =
      (if pid \<in> ci_productId ` set items then Some (cart_quantity items pid) else None)"
      unfolding decrementStock_def foldl_add_decrement_map_of by simp
  qed
  have present: "\<forall>pid \<in> set (map fst ?al). \<exists>p \<in> set (products s2). p_id p = pid"
  proof
    fix pid assume "pid \<in> set (map fst ?al)"
    then obtain i where i: "i \<in> set items" "ci_productId i = pid" using k(2) by auto
    with ex obtain p where "product_findUnique pid s = Some p" by auto
    then have "p \<in> set (products s)" "p_id p = pid"
      by (auto simp: product_findUnique_def find_Some_iff)
    then show "\<exists>p \<in> set (products s2). p_id p = pid" using same by auto
  qed
  have z: "\<And>p :: product_row. (case map_of ?al (p_id p) of
                    None \<Rightarrow> p
                  | Some n \<Rightarrow> p\<lparr>p_stockQty := map_option (\<lambda>v. v - n) (p_stockQty p)\<rparr>)
             = p\<lparr>p_stockQty := map_option (\<lambda>v. v - cart_quantity items (p_id p)) (p_stockQty p)\<rparr>"
  proof -
    fix p :: product_row
    show "(case map_of ?al (p_id p) of
                    None \<Rightarrow> p
                  | Some n \<Rightarrow> p\<lparr>p_stockQty := map_option (\<lambda>v. v - n) (p_stockQty p)\<rparr>)
             = p\<lparr>p_stockQty := map_option (\<lambda>v. v - cart_quantity items (p_id p)) (p_stockQty p)\<rparr>"
    proof (cases "p_id p \<in> ci_productId ` set items")
      case True
      then show ?thesis by (simp add: m)
    next
      case False
      then have "\<forall>i \<in> set items. ci_productId i \<noteq> p_id p" by (metis imageI)
      then have "filter (\<lambda>i. ci_productId i = p_id p) items = []"
        by (simp add: filter_empty_conv)
      then have "cart_quantity items (p_id p) = 0" by (simp add: cart_quantity_def)
      then show ?thesis using False by (simp add: m option.map_ident)
    qed
  qed
  show ?thesis
    unfolding stockUpdates_ok[OF k(1) present] by (simp add: z same)
qed

subsection \<open>From the tables to the queries\<close>

lemma map_enumerate_map:
  "map F (enumerate n (map g xs)) = map (\<lambda>(k, x). F (k, g x)) (enumerate n xs)"
  by (induction xs arbitrary: n) auto

lemma those_map_Some:
  "\<forall>x \<in> set xs. f x = Some (g x) \<Longrightarrow> those (map f xs) = Some (map g xs)"
  by (induction xs) auto

lemma find_unique:
  "distinct (map f xs) \<Longrightarrow> x \<in> set xs \<Longrightarrow> find (\<lambda>y. f y = f x) xs = Some x"
proof (induction xs)
  case Nil
  then show ?case by simp
next
  case (Cons a xs)
  show ?case
  proof (cases "a = x")
    case True
    then show ?thesis by simp
  next
    case False
    with Cons.prems have x: "x \<in> set xs" by simp
    then have "f x \<in> f ` set xs" by (rule imageI)
    with Cons.prems(1) have "f a \<noteq> f x" by auto
    with Cons.IH[OF _ x] Cons.prems(1) show ?thesis by simp
  qed
qed

lemma filter_unique:
  "distinct (map f xs) \<Longrightarrow> x \<in> set xs \<Longrightarrow> filter (\<lambda>y. f y = f x) xs = [x]"
proof (induction xs)
  case Nil
  then show ?case by simp
next
  case (Cons a xs)
  show ?case
  proof (cases "a = x")
    case True
    with Cons.prems(1) have "\<forall>y \<in> set xs. f y \<noteq> f x" by (metis distinct.simps(2) imageI list.simps(9) set_map)
    then have "filter (\<lambda>y. f y = f x) xs = []" by (simp add: filter_empty_conv)
    with True show ?thesis by simp
  next
    case False
    with Cons.prems have x: "x \<in> set xs" by simp
    then have "f x \<in> f ` set xs" by (rule imageI)
    with Cons.prems(1) have "f a \<noteq> f x" by auto
    with Cons.IH[OF _ x] Cons.prems(1) show ?thesis by simp
  qed
qed

lemma product_facts:
  assumes pk: "distinct (map p_id (products s))"
    and p: "p \<in> set (products s)" "p_id p = pid"
  shows "product_findUnique pid s = Some p"
    and "product_price s pid = p_price p"
    and "price_in s pid = price_value (p_price p)"
    and "available_stock s pid = (case p_stockQty p of None \<Rightarrow> 0 | Some n \<Rightarrow> n)"
proof -
  show f: "product_findUnique pid s = Some p"
    using find_unique[OF pk p(1)] p(2) by (simp add: product_findUnique_def)
  show "product_price s pid = p_price p" by (simp add: product_price_def f)
  show "price_in s pid = price_value (p_price p)"
    using filter_unique[OF pk p(1)] p(2) by (simp add: price_in_def)
  show "available_stock s pid = (case p_stockQty p of None \<Rightarrow> 0 | Some n \<Rightarrow> n)"
    by (simp add: available_stock_def f)
qed

lemma cart_total_exact:
  assumes "\<forall>i \<in> set items. \<exists>c. product_price s (ci_productId i) = Some (Dec (of_int c))
                \<and> price_in s (ci_productId i) = of_int c \<and> \<bar>c\<bar> < 2 ^ 53"
    and "of_int \<bar>a\<bar> + (\<Sum>i\<leftarrow>items. \<bar>of_int (ci_quantity i) * price_in s (ci_productId i)\<bar>) < 2 ^ 53"
  shows "foldl (\<lambda>acc i. js_add acc (js_mul (Number_int (ci_quantity i))
                                        (Number_price (product_price s (ci_productId i)))))
           (Num (of_int a)) items = Num (of_int a + order_sum s items)"
  using assms
proof (induction items arbitrary: a)
  case Nil
  show ?case by (simp add: order_sum_def)
next
  case (Cons i items)
  let ?rest = "\<Sum>i\<leftarrow>items. \<bar>of_int (ci_quantity i) * price_in s (ci_productId i)\<bar>"
  from Cons.prems(1) obtain c where pc: "product_price s (ci_productId i) = Some (Dec (of_int c))"
    and u: "price_in s (ci_productId i) = of_int c" and c: "\<bar>c\<bar> < 2 ^ 53" by auto
  have r0: "0 \<le> ?rest" by (rule sum_list_nonneg) auto
  have "(of_int \<bar>a\<bar> :: rat) + of_int \<bar>ci_quantity i * c\<bar> + ?rest < 2 ^ 53"
    using Cons.prems(2) by (simp add: u abs_mult)
  then have b': "(of_int (\<bar>a\<bar> + \<bar>ci_quantity i * c\<bar>) :: rat) + ?rest < 2 ^ 53" by simp
  then have "(of_int (\<bar>a\<bar> + \<bar>ci_quantity i * c\<bar>) :: rat) < of_int (2 ^ 53)" using r0 by simp
  then have b: "\<bar>a\<bar> + \<bar>ci_quantity i * c\<bar> < 2 ^ 53" by (simp only: of_int_less_iff)
  have step: "js_add (Num (of_int a)) (js_mul (Number_int (ci_quantity i)) (round64 (of_int c)))
                = Num (of_int (a + ci_quantity i * c))"
    by (rule add_mul_exact[OF c b])
  have "(of_int \<bar>a + ci_quantity i * c\<bar> :: rat) \<le> of_int (\<bar>a\<bar> + \<bar>ci_quantity i * c\<bar>)"
    by (metis abs_triangle_ineq of_int_le_iff)
  then have b2: "(of_int \<bar>a + ci_quantity i * c\<bar> :: rat) + ?rest < 2 ^ 53" using b' by linarith
  have all: "\<forall>i \<in> set items. \<exists>c. product_price s (ci_productId i) = Some (Dec (of_int c))
                \<and> price_in s (ci_productId i) = of_int c \<and> \<bar>c\<bar> < 2 ^ 53"
    using Cons.prems(1) by simp
  show ?case
    using Cons.IH[OF all b2] by (simp add: pc step order_sum_def u)
qed

lemma order_sum_safe:
  assumes "\<forall>i \<in> set items. \<exists>c. price_in s (ci_productId i) = of_int c"
    and "(\<Sum>i\<leftarrow>items. \<bar>of_int (ci_quantity i) * price_in s (ci_productId i)\<bar>) < 2 ^ 53"
  shows "\<exists>T. order_sum s items = of_int T \<and> \<bar>T\<bar> < 2 ^ 53"
proof -
  have "order_sum s items \<in> \<int>"
    using assms(1) unfolding order_sum_def
  proof (induction items)
    case Nil
    show ?case by simp
  next
    case (Cons i items)
    from Cons.prems obtain c where "price_in s (ci_productId i) = of_int c" by auto
    then have "of_int (ci_quantity i) * price_in s (ci_productId i) \<in> \<int>" by simp
    moreover have "(\<Sum>i\<leftarrow>items. of_int (ci_quantity i) * price_in s (ci_productId i)) \<in> \<int>"
      using Cons by simp
    ultimately show ?case by simp
  qed
  then obtain T where T: "order_sum s items = of_int T" by (rule Ints_cases)
  have "\<bar>order_sum s items\<bar> \<le> (\<Sum>i\<leftarrow>items. \<bar>of_int (ci_quantity i) * price_in s (ci_productId i)\<bar>)"
    unfolding order_sum_def using sum_list_abs[of "map (\<lambda>i. of_int (ci_quantity i) * price_in s (ci_productId i)) items"]
    by (simp add: comp_def)
  with assms(2) have "\<bar>order_sum s items\<bar> < 2 ^ 53" by linarith
  then have "(of_int \<bar>T\<bar> :: rat) < of_int (2 ^ 53)" by (simp add: T)
  then have "\<bar>T\<bar> < 2 ^ 53" by (simp only: of_int_less_iff)
  with T show ?thesis by blast
qed

subsection \<open>The outcome\<close>

lemma checkout_tx_success:
  assumes cart: "cart_findUnique userId s = Some cart"
    and ex: "\<forall>i \<in> set (cartItem_findMany (c_id cart) s). product_findUnique (ci_productId i) s \<noteq> None"
    and ne: "cartItem_findMany (c_id cart) s \<noteq> []"
    and addr: "\<exists>r \<in> set (userAddresses s). a_id r = shippingAddressId"
    and pass: "\<forall>i \<in> set (cartItem_findMany (c_id cart) s). \<not> exceeds_stock s i"
    and pk: "distinct (map p_id (products s))"
    and fresh: "\<forall>t \<in> set (transactions s). t_noInvoice t \<noteq> generateInvoiceNumber (today env) (randomPool env)"
    and tot: "totalPriceColumn env (cart_total s (cartItem_findMany (c_id cart) s)) = Some tp"
    and prices: "\<forall>i \<in> set (cartItem_findMany (c_id cart) s).
                   \<exists>d. product_price s (ci_productId i) = Some d \<and> priceColumn env d = Some (sp i)"
    and amt: "amountColumn env (Number_decimal tp) = Some am"
  shows "checkout_tx env userId shippingAddressId s =
     (let items = cartItem_findMany (c_id cart) s;
          order = \<lparr>o_id = newOrderId env, o_userId = userId, o_totalPrice = tp,
                    o_status = ''pending'', o_shippingAddressId = shippingAddressId\<rparr>;
          rows = map (\<lambda>(k, i). \<lparr>oi_id = newOrderItemId env k, oi_orderId = newOrderId env,
                                   oi_productId = ci_productId i, oi_quantity = ci_quantity i,
                                   oi_price = sp i\<rparr>) (enumerate 0 items);
          t = \<lparr>t_id = newTransactionId env,
                t_noInvoice = generateInvoiceNumber (today env) (randomPool env),
                t_amount = am, t_status = ''Pending'', t_orderId = newOrderId env\<rparr>
      in (Inr ((order, rows), t),
          s\<lparr>cartItems := filter (\<lambda>i. ci_cartId i \<noteq> c_id cart) (cartItems s),
            products := map (\<lambda>p. p\<lparr>p_stockQty := map_option (\<lambda>v. v - cart_quantity items (p_id p))
                                                             (p_stockQty p)\<rparr>) (products s),
            orders := orders s @ [order],
            orderItems := orderItems s @ rows,
            transactions := transactions s @ [t]\<rparr>))"
proof -
  let ?items = "cartItem_findMany (c_id cart) s"
  let ?joined = "map (\<lambda>i. (i, the (product_findUnique (ci_productId i) s))) ?items"
  let ?order = "\<lparr>o_id = newOrderId env, o_userId = userId, o_totalPrice = tp,
                    o_status = ''pending'', o_shippingAddressId = shippingAddressId\<rparr>"
  let ?rows = "map (\<lambda>(k, i). \<lparr>oi_id = newOrderItemId env k, oi_orderId = newOrderId env,
                                   oi_productId = ci_productId i, oi_quantity = ci_quantity i,
                                   oi_price = sp i\<rparr>) (enumerate 0 ?items)"
  let ?t = "\<lparr>t_id = newTransactionId env,
                t_noInvoice = generateInvoiceNumber (today env) (randomPool env),
                t_amount = am, t_status = ''Pending'', t_orderId = newOrderId env\<rparr>"
  let ?s1 = "s\<lparr>orders := orders s @ [?order], orderItems := orderItems s @ ?rows\<rparr>"
  let ?s2 = "?s1\<lparr>transactions := transactions s @ [?t]\<rparr>"
  let ?triples = "map (\<lambda>i. (ci_productId i, ci_quantity i, product_price s (ci_productId i))) ?items"
  have inc: "include_product s ?items = Inr ?joined" by (rule include_product_Inr[OF ex])
  have len: "length ?joined \<noteq> 0" using ne by simp
  have cnt: "userAddress_count shippingAddressId s \<noteq> 0"
    using addr by (auto simp: userAddress_count_def filter_empty_conv)
  have ids: "map (\<lambda>(item, product). ci_productId item) ?joined = map ci_productId ?items"
    by (simp add: comp_def)
  have lines: "map (\<lambda>(item, product). line_of item) ?joined = map line_of ?items"
    by (simp add: comp_def)
  have noex: "filter (exceeds_stock s) ?items = []" using pass by (simp add: filter_empty_conv)
  have val: "validateProductStock (map line_of ?items)
           (productStock_of (product_findMany (map ci_productId ?items) s)) = Inr ()"
    by (simp add: validate_cart[OF pk ex] noex)
  have total: "calculateTotalPrice (map line_of ?items)
               (map priced_of (product_findMany (map ci_productId ?items) s)) = cart_total s ?items"
    by (rule calculateTotalPrice_cart)
  have triples: "map (\<lambda>(item, product). (ci_productId item, ci_quantity item, p_price product)) ?joined
      = ?triples"
    using ex by (auto simp: product_price_def split: option.splits)
  have st: "\<forall>x \<in> set ?items.
      stored_item env (ci_productId x, ci_quantity x, product_price s (ci_productId x))
        = Some (ci_productId x, ci_quantity x, sp x)"
    using prices by (auto simp: stored_item_def)
  have those: "those (map (stored_item env) ?triples)
      = Some (map (\<lambda>i. (ci_productId i, ci_quantity i, sp i)) ?items)"
    using those_map_Some[of ?items "\<lambda>x. stored_item env (ci_productId x, ci_quantity x, product_price s (ci_productId x))"
                            "\<lambda>i. (ci_productId i, ci_quantity i, sp i)", OF st]
    by (simp add: comp_def)
  have rows: "map (\<lambda>(k, (pid, qty, price)).
                        \<lparr>oi_id = newOrderItemId env k, oi_orderId = newOrderId env,
                         oi_productId = pid, oi_quantity = qty, oi_price = price\<rparr>)
                (enumerate 0 (map (\<lambda>i. (ci_productId i, ci_quantity i, sp i)) ?items))
              = ?rows"
    by (simp add: map_enumerate_map)
  have oc: "order_create env userId (cart_total s ?items) shippingAddressId ?triples s
            = (Inr (?order, ?rows), ?s1)"
    unfolding order_create_def Let_def tot those option.case rows by simp
  have tc: "transaction_create env (generateInvoiceNumber (today env) (randomPool env))
              (Number_decimal tp) (newOrderId env) ?s1 = (Inr ?t, ?s2)"
    using fresh by (simp add: transaction_create_def Let_def amt)
  have su: "stockUpdates (decrementStock (map line_of ?items)) ?s2 =
     (Inr (), ?s2\<lparr>products := map (\<lambda>p. p\<lparr>p_stockQty := map_option (\<lambda>v. v - cart_quantity ?items (p_id p))
                                                                     (p_stockQty p)\<rparr>) (products s)\<rparr>)"
    by (rule decrement_products[OF ex]) simp
  show ?thesis
    unfolding checkout_tx_def Let_def cart option.case inc sum.case ids lines triples val total oc
    using len cnt
    by (simp add: tc su cartItem_deleteMany_def)
qed


text \<open>
  C3, as the claim states it: for every cart that is not empty and whose items pass the stock
  validation, and an existing shipping address, checkout creates one order whose total is the
  sum of quantity times price, its items, one transaction, lowers the stock and empties the
  cart. Two things stand against it. The invoice number is unique among the transactions and
  checkout does not try a second one: in \<open>collision_db\<close>, where two units are asked of a stock
  of five and the address exists, the number about to be generated is taken, and checkout
  fails and leaves the store as it was. And the total is computed in binary64: for one unit
  at 70368744177664.01 the order's total is 70368744177664.02, also when the column keeps
  two decimal places.
\<close>

theorem checkout_fails_or_misses_the_sum:
  "map ci_quantity (cart_items collision_db \<lparr>c_id = ''c1'', c_userId = ''u1''\<rparr>) = [2]
   \<and> map p_stockQty (products collision_db) = [Some 5]
   \<and> map a_id (userAddresses collision_db) = [''a1'']
   \<and> checkout example_env ''u1'' ''a1'' collision_db = (Inl (PrismaError ''P2002''), collision_db)
   \<and> order_sum large_price_db (cart_items large_price_db \<lparr>c_id = ''c1'', c_userId = ''u1''\<rparr>)
        = 7036874417766401 / 100
   \<and> map_sum id (\<lambda>r. o_totalPrice (fst (fst r))) (fst (checkout example_env ''u1'' ''a1'' large_price_db))
        = Inr (Dec (7036874417766402 / 100))"
  by code_simp

text \<open>
  C3, amended: take a cart of the user that is not empty, whose items each have their product
  in the store with a stock not below the quantity, an existing shipping address, and an
  invoice number about to be generated that no transaction has yet; let every price be an
  integer below \<open>2\<^sup>5\<^sup>3\<close> in magnitude, the magnitudes of quantity times price sum to less than
  \<open>2\<^sup>5\<^sup>3\<close>, and the columns of the order tables hold these prices and their sum unchanged.
  Then checkout returns an order and a transaction, and in the store it leaves exactly this
  order was added, with status \<^verbatim>\<open>pending\<close> and as total the sum of quantity times price over
  the cart items; one order item per cart item was added, in cart order, with the product,
  the quantity and the product's price; the stock of every product is lower by the quantity
  the cart holds of it; exactly one transaction was added, with status \<^verbatim>\<open>Pending\<close>, the
  order's total as amount, the order's id and the generated invoice number; the items of the
  cart are deleted, and carts and addresses are as before. Users have one cart at most and
  product ids are unique.
\<close>

theorem checkout_success:
  assumes cart: "cart \<in> set (carts s) \<and> c_userId cart = userId"
    and one_cart: "distinct (map c_userId (carts s))"
    and ne: "cart_items s cart \<noteq> []"
    and ok: "\<forall>i \<in> set (cart_items s cart). \<exists>p \<in> set (products s). \<exists>c st.
               p_id p = ci_productId i \<and> p_price p = Some (Dec (of_int c)) \<and> \<bar>c\<bar> < 2 ^ 53
             \<and> p_stockQty p = Some st \<and> ci_quantity i \<le> st"
    and bound: "(\<Sum>i\<leftarrow>cart_items s cart. \<bar>of_int (ci_quantity i) * price_in s (ci_productId i)\<bar>) < 2 ^ 53"
    and addr: "\<exists>r \<in> set (userAddresses s). a_id r = shippingAddressId"
    and pk: "distinct (map p_id (products s))"
    and fresh: "\<forall>t \<in> set (transactions s). t_noInvoice t \<noteq> generateInvoiceNumber (today env) (randomPool env)"
    and col_total: "totalPriceColumn env (Num (order_sum s (cart_items s cart)))
                      = Some (Dec (order_sum s (cart_items s cart)))"
    and col_price: "\<forall>i \<in> set (cart_items s cart).
                      priceColumn env (Dec (price_in s (ci_productId i)))
                        = Some (Dec (price_in s (ci_productId i)))"
    and col_amount: "amountColumn env (Num (order_sum s (cart_items s cart)))
                      = Some (Dec (order_sum s (cart_items s cart)))"
  shows "\<exists>order rows t s'.
      checkout env userId shippingAddressId s = (Inr ((order, rows), t), s')
    \<and> orders s' = orders s @ [order]
    \<and> o_status order = ''pending'' \<and> o_userId order = userId
    \<and> o_shippingAddressId order = shippingAddressId
    \<and> o_totalPrice order = Dec (order_sum s (cart_items s cart))
    \<and> orderItems s' = orderItems s @ rows
    \<and> map (\<lambda>r. (oi_orderId r, oi_productId r, oi_quantity r, oi_price r)) rows
        = map (\<lambda>i. (o_id order, ci_productId i, ci_quantity i, Dec (price_in s (ci_productId i))))
              (cart_items s cart)
    \<and> products s' = map (\<lambda>p. p\<lparr>p_stockQty :=
                                    map_option (\<lambda>v. v - cart_quantity (cart_items s cart) (p_id p))
                                               (p_stockQty p)\<rparr>) (products s)
    \<and> transactions s' = transactions s @ [t]
    \<and> t_status t = ''Pending'' \<and> t_amount t = o_totalPrice order \<and> t_orderId t = o_id order
    \<and> t_noInvoice t = generateInvoiceNumber (today env) (randomPool env)
    \<and> cartItems s' = [i \<leftarrow> cartItems s. ci_cartId i \<noteq> c_id cart]
    \<and> carts s' = carts s \<and> userAddresses s' = userAddresses s"
proof -
  let ?items = "cart_items s cart"
  let ?T = "order_sum s ?items"
  have cf: "cart_findUnique userId s = Some cart"
    using cart_of_user_unique[OF one_cart] cart by blast
  have items: "cartItem_findMany (c_id cart) s = ?items"
    by (simp add: cartItem_findMany_def cart_items_def)
  have each: "\<forall>i \<in> set ?items. \<exists>c.
        product_findUnique (ci_productId i) s \<noteq> None
      \<and> product_price s (ci_productId i) = Some (Dec (of_int c))
      \<and> price_in s (ci_productId i) = of_int c \<and> \<bar>c\<bar> < 2 ^ 53
      \<and> \<not> exceeds_stock s i"
  proof
    fix i assume "i \<in> set ?items"
    with ok obtain p c st where p: "p \<in> set (products s)" "p_id p = ci_productId i"
      and pc: "p_price p = Some (Dec (of_int c))" and c: "\<bar>c\<bar> < 2 ^ 53"
      and st: "p_stockQty p = Some st" "ci_quantity i \<le> st" by blast
    note f = product_facts[OF pk p]
    have "product_findUnique (ci_productId i) s \<noteq> None" by (simp add: f(1))
    moreover have "product_price s (ci_productId i) = Some (Dec (of_int c))" by (simp add: f(2) pc)
    moreover have "price_in s (ci_productId i) = of_int c" by (simp add: f(3) pc)
    moreover have "\<not> exceeds_stock s i" using st by (simp add: exceeds_stock_def f(4))
    ultimately show "\<exists>c.
        product_findUnique (ci_productId i) s \<noteq> None
      \<and> product_price s (ci_productId i) = Some (Dec (of_int c))
      \<and> price_in s (ci_productId i) = of_int c \<and> \<bar>c\<bar> < 2 ^ 53
      \<and> \<not> exceeds_stock s i" using c by blast
  qed
  have ex: "\<forall>i \<in> set (cartItem_findMany (c_id cart) s). product_findUnique (ci_productId i) s \<noteq> None"
    unfolding items using each by blast
  have pass: "\<forall>i \<in> set (cartItem_findMany (c_id cart) s). \<not> exceeds_stock s i"
    unfolding items using each by blast
  have ne': "cartItem_findMany (c_id cart) s \<noteq> []" unfolding items by (rule ne)
  have exact: "\<forall>i \<in> set ?items. \<exists>c. product_price s (ci_productId i) = Some (Dec (of_int c))
                \<and> price_in s (ci_productId i) = of_int c \<and> \<bar>c\<bar> < 2 ^ 53"
    using each by blast
  have b0: "of_int \<bar>0\<bar> + (\<Sum>i\<leftarrow>?items. \<bar>of_int (ci_quantity i) * price_in s (ci_productId i)\<bar>) < 2 ^ 53"
    using bound by simp
  have ct: "cart_total s ?items = Num ?T"
    using cart_total_exact[OF exact b0] by (simp add: cart_total_def)
  have ints: "\<forall>i \<in> set ?items. \<exists>c. price_in s (ci_productId i) = of_int c"
    using each by blast
  obtain T where T: "?T = of_int T" "\<bar>T\<bar> < 2 ^ 53"
    using order_sum_safe[OF ints bound] by blast
  have rb: "Number_decimal (Dec ?T) = Num ?T"
    by (simp add: T(1) round64_of_int[OF T(2)])
  have tot: "totalPriceColumn env (cart_total s (cartItem_findMany (c_id cart) s)) = Some (Dec ?T)"
    unfolding items ct by (rule col_total)
  have amt: "amountColumn env (Number_decimal (Dec ?T)) = Some (Dec ?T)"
    unfolding rb by (rule col_amount)
  have prices: "\<forall>i \<in> set (cartItem_findMany (c_id cart) s).
                   \<exists>d. product_price s (ci_productId i) = Some d
                     \<and> priceColumn env d = Some (Dec (price_in s (ci_productId i)))"
  proof
    fix i assume i: "i \<in> set (cartItem_findMany (c_id cart) s)"
    then have i': "i \<in> set ?items" by (simp add: items)
    with exact obtain c where "product_price s (ci_productId i) = Some (Dec (of_int c))"
      "price_in s (ci_productId i) = of_int c" by blast
    moreover have "priceColumn env (Dec (price_in s (ci_productId i))) = Some (Dec (price_in s (ci_productId i)))"
      using col_price i' by blast
    ultimately show "\<exists>d. product_price s (ci_productId i) = Some d
                     \<and> priceColumn env d = Some (Dec (price_in s (ci_productId i)))" by simp
  qed
  have rows: "\<And>oid (f :: nat \<Rightarrow> string) (g :: cartItem_row \<Rightarrow> decimal) n xs.
      map (\<lambda>r. (oi_orderId r, oi_productId r, oi_quantity r, oi_price r))
          (map (\<lambda>(k, i). \<lparr>oi_id = f k, oi_orderId = oid, oi_productId = ci_productId i,
                           oi_quantity = ci_quantity i, oi_price = g i\<rparr>) (enumerate n xs))
      = map (\<lambda>i. (oid, ci_productId i, ci_quantity i, g i)) xs"
  proof -
    fix oid and f :: "nat \<Rightarrow> string" and g :: "cartItem_row \<Rightarrow> decimal" and n xs
    show "map (\<lambda>r. (oi_orderId r, oi_productId r, oi_quantity r, oi_price r))
          (map (\<lambda>(k, i). \<lparr>oi_id = f k, oi_orderId = oid, oi_productId = ci_productId i,
                           oi_quantity = ci_quantity i, oi_price = g i\<rparr>) (enumerate n xs))
      = map (\<lambda>i. (oid, ci_productId i, ci_quantity i, g i)) xs"
      by (induction xs arbitrary: n) auto
  qed
  note tx = checkout_tx_success[OF cf ex ne' addr pass pk fresh tot prices amt, unfolded Let_def items]
  have ck: "checkout env userId shippingAddressId s = checkout_tx env userId shippingAddressId s"
    by (simp add: checkout_def db_transaction_def tx)
  show ?thesis
    unfolding ck tx by (simp add: rows del: map_map)
qed

text \<open>
  In \<open>shop_db\<close> the cart of \<open>u1\<close> holds two units of \<open>pA\<close> at 45000 and one of \<open>pB\<close> at
  30000: the order totals 120000 with two items, the stocks go from 5 and 10 to 3 and 9, the
  stock of \<open>pC\<close> and the cart item of \<open>u2\<close> stay, and the earlier order and transaction are
  still there.
\<close>

theorem checkout_success_witness:
  "checkout example_env ''u1'' ''a1'' shop_db =
     (Inr ((\<lparr>o_id = ''o1'', o_userId = ''u1'', o_totalPrice = Dec 120000,
              o_status = ''pending'', o_shippingAddressId = ''a1''\<rparr>,
            [\<lparr>oi_id = ''oi0'', oi_orderId = ''o1'', oi_productId = ''pA'',
              oi_quantity = 2, oi_price = Dec 45000\<rparr>,
             \<lparr>oi_id = ''oi1'', oi_orderId = ''o1'', oi_productId = ''pB'',
              oi_quantity = 1, oi_price = Dec 30000\<rparr>]),
           \<lparr>t_id = ''t1'', t_noInvoice = ''INV-20241213-_musea'', t_amount = Dec 120000,
             t_status = ''Pending'', t_orderId = ''o1''\<rparr>),
      shop_db
        \<lparr>cartItems := [\<lparr>ci_id = ''i2'', ci_quantity = 1, ci_productId = ''pA'', ci_cartId = ''c2''\<rparr>],
         products := [\<lparr>p_id = ''pA'', p_name = ''Kopi'', p_price = Some (Dec 45000), p_stockQty = Some 3\<rparr>,
                      \<lparr>p_id = ''pB'', p_name = ''Teh'', p_price = Some (Dec 30000), p_stockQty = Some 9\<rparr>,
                      \<lparr>p_id = ''pC'', p_name = ''Gula'', p_price = Some (Dec 12000), p_stockQty = Some 7\<rparr>],
         orders := orders shop_db @
                   [\<lparr>o_id = ''o1'', o_userId = ''u1'', o_totalPrice = Dec 120000,
                     o_status = ''pending'', o_shippingAddressId = ''a1''\<rparr>],
         orderItems := orderItems shop_db @
                   [\<lparr>oi_id = ''oi0'', oi_orderId = ''o1'', oi_productId = ''pA'',
                     oi_quantity = 2, oi_price = Dec 45000\<rparr>,
                    \<lparr>oi_id = ''oi1'', oi_orderId = ''o1'', oi_productId = ''pB'',
                     oi_quantity = 1, oi_price = Dec 30000\<rparr>],
         transactions := transactions shop_db @
                   [\<lparr>t_id = ''t1'', t_noInvoice = ''INV-20241213-_musea'', t_amount = Dec 120000,
                     t_status = ''Pending'', t_orderId = ''o1''\<rparr>]\<rparr>)"
proof -
  let ?cart = "\<lparr>c_id = ''c1'', c_userId = ''u1''\<rparr>"
  let ?i1 = "\<lparr>ci_id = ''i1'', ci_quantity = 2, ci_productId = ''pA'', ci_cartId = ''c1''\<rparr>"
  let ?i3 = "\<lparr>ci_id = ''i3'', ci_quantity = 1, ci_productId = ''pB'', ci_cartId = ''c1''\<rparr>"
  have cart: "?cart \<in> set (carts shop_db) \<and> c_userId ?cart = ''u1''"
    by (simp add: shop_db_def)
  have one_cart: "distinct (map c_userId (carts shop_db))"
    by (simp add: shop_db_def)
  have items: "cart_items shop_db ?cart = [?i1, ?i3]"
    by (simp add: cart_items_def shop_db_def)
  have ne: "cart_items shop_db ?cart \<noteq> []" by (simp add: items)
  have a: "\<exists>p \<in> set (products shop_db). \<exists>c st.
               p_id p = ci_productId ?i1 \<and> p_price p = Some (Dec (of_int c)) \<and> \<bar>c\<bar> < 2 ^ 53
             \<and> p_stockQty p = Some st \<and> ci_quantity ?i1 \<le> st"
    by (rule bexI[of _ "\<lparr>p_id = ''pA'', p_name = ''Kopi'', p_price = Some (Dec 45000), p_stockQty = Some 5\<rparr>"],
        rule exI[of _ 45000], rule exI[of _ 5])
       (simp_all add: shop_db_def)
  have b: "\<exists>p \<in> set (products shop_db). \<exists>c st.
               p_id p = ci_productId ?i3 \<and> p_price p = Some (Dec (of_int c)) \<and> \<bar>c\<bar> < 2 ^ 53
             \<and> p_stockQty p = Some st \<and> ci_quantity ?i3 \<le> st"
    by (rule bexI[of _ "\<lparr>p_id = ''pB'', p_name = ''Teh'', p_price = Some (Dec 30000), p_stockQty = Some 10\<rparr>"],
        rule exI[of _ 30000], rule exI[of _ 10])
       (simp_all add: shop_db_def)
  have ok: "\<forall>i \<in> set (cart_items shop_db ?cart). \<exists>p \<in> set (products shop_db). \<exists>c st.
               p_id p = ci_productId i \<and> p_price p = Some (Dec (of_int c)) \<and> \<bar>c\<bar> < 2 ^ 53
             \<and> p_stockQty p = Some st \<and> ci_quantity i \<le> st"
    unfolding items using a b by simp
  have pa: "price_in shop_db ''pA'' = 45000" and pb: "price_in shop_db ''pB'' = 30000"
    by (simp_all add: price_in_def shop_db_def)
  have sum: "order_sum shop_db (cart_items shop_db ?cart) = 120000"
    by (simp add: items order_sum_def pa pb)
  have bound: "(\<Sum>i\<leftarrow>cart_items shop_db ?cart.
                  \<bar>of_int (ci_quantity i) * price_in shop_db (ci_productId i)\<bar>) < 2 ^ 53"
    by (simp add: items pa pb)
  have addr: "\<exists>r \<in> set (userAddresses shop_db). a_id r = ''a1''"
    by (simp add: shop_db_def)
  have pk: "distinct (map p_id (products shop_db))"
    by (simp add: shop_db_def)
  have inv: "generateInvoiceNumber (today example_env) (randomPool example_env) = ''INV-20241213-_musea''"
    by code_simp
  have fresh: "\<forall>t \<in> set (transactions shop_db).
                 t_noInvoice t \<noteq> generateInvoiceNumber (today example_env) (randomPool example_env)"
    unfolding inv by (simp add: shop_db_def)
  have m1: "money 120000 = Some (Dec 120000)" by code_simp
  have m2: "money 45000 = Some (Dec 45000)" by code_simp
  have m3: "money 30000 = Some (Dec 30000)" by code_simp
  have col_total: "totalPriceColumn example_env (Num (order_sum shop_db (cart_items shop_db ?cart)))
                      = Some (Dec (order_sum shop_db (cart_items shop_db ?cart)))"
    unfolding sum by (simp add: example_env_def m1)
  have col_amount: "amountColumn example_env (Num (order_sum shop_db (cart_items shop_db ?cart)))
                      = Some (Dec (order_sum shop_db (cart_items shop_db ?cart)))"
    unfolding sum by (simp add: example_env_def m1)
  have col_price: "\<forall>i \<in> set (cart_items shop_db ?cart).
                      priceColumn example_env (Dec (price_in shop_db (ci_productId i)))
                        = Some (Dec (price_in shop_db (ci_productId i)))"
    unfolding items by (simp add: example_env_def pa pb m2 m3)
  from checkout_success[OF cart one_cart ne ok bound addr pk fresh col_total col_price col_amount]
  obtain order rows t s' where
    "checkout example_env ''u1'' ''a1'' shop_db = (Inr ((order, rows), t), s')" by blast
  moreover have "fst (checkout example_env ''u1'' ''a1'' shop_db) =
     Inr ((\<lparr>o_id = ''o1'', o_userId = ''u1'', o_totalPrice = Dec 120000,
              o_status = ''pending'', o_shippingAddressId = ''a1''\<rparr>,
            [\<lparr>oi_id = ''oi0'', oi_orderId = ''o1'', oi_productId = ''pA'',
              oi_quantity = 2, oi_price = Dec 45000\<rparr>,
             \<lparr>oi_id = ''oi1'', oi_orderId = ''o1'', oi_productId = ''pB'',
              oi_quantity = 1, oi_price = Dec 30000\<rparr>]),
           \<lparr>t_id = ''t1'', t_noInvoice = ''INV-20241213-_musea'', t_amount = Dec 120000,
             t_status = ''Pending'', t_orderId = ''o1''\<rparr>)"
    by code_simp
  moreover have "snd (checkout example_env ''u1'' ''a1'' shop_db) =
      shop_db
        \<lparr>cartItems := [\<lparr>ci_id = ''i2'', ci_quantity = 1, ci_productId = ''pA'', ci_cartId = ''c2''\<rparr>],
         products := [\<lparr>p_id = ''pA'', p_name = ''Kopi'', p_price = Some (Dec 45000), p_stockQty = Some 3\<rparr>,
                      \<lparr>p_id = ''pB'', p_name = ''Teh'', p_price = Some (Dec 30000), p_stockQty = Some 9\<rparr>,
                      \<lparr>p_id = ''pC'', p_name = ''Gula'', p_price = Some (Dec 12000), p_stockQty = Some 7\<rparr>],
         orders := orders shop_db @
                   [\<lparr>o_id = ''o1'', o_userId = ''u1'', o_totalPrice = Dec 120000,
                     o_status = ''pending'', o_shippingAddressId = ''a1''\<rparr>],
         orderItems := orderItems shop_db @
                   [\<lparr>oi_id = ''oi0'', oi_orderId = ''o1'', oi_productId = ''pA'',
                     oi_quantity = 2, oi_price = Dec 45000\<rparr>,
                    \<lparr>oi_id = ''oi1'', oi_orderId = ''o1'', oi_productId = ''pB'',
                     oi_quantity = 1, oi_price = Dec 30000\<rparr>],
         transactions := transactions shop_db @
                   [\<lparr>t_id = ''t1'', t_noInvoice = ''INV-20241213-_musea'', t_amount = Dec 120000,
                     t_status = ''Pending'', t_orderId = ''o1''\<rparr>]\<rparr>"
    by code_simp
  ultimately show ?thesis by (metis prod.collapse)
qed


end
